theory Spec2Isabelle
  imports Complex_Main "HOL-Library.AList"
begin

section \<open>The quantization driver of QLLM: \<^verbatim>\<open>qllm/model_quantization_base.py\<close>\<close>

text \<open>
  The file holds one class, \<^verbatim>\<open>ModelQuantizationBase\<close>, whose method \<^verbatim>\<open>run\<close> drives a
  pipeline: load a model, calibrate and pack it, save it, evaluate it, export it, serve it.
  The methods are embedded as computations over an explicit state. Everything the methods
  hand to another module (the tokenizer, the model loaders, the quantizer, the exporter,
  the logger, the file system) is recorded as an event of a trace, in program order, and
  what those modules return is read from an environment record. The exceptions modelled
  are the ones the statements of this file raise themselves: the explicit
  \<^verbatim>\<open>raise ValueError\<close>, a local variable read before it is bound, a missing dictionary
  key, a failed tuple unpacking, an index out of range, and a method called on \<^verbatim>\<open>None\<close>.
  The other modules are taken to return normally.
\<close>

subsection \<open>Python values\<close>

text \<open>
  The class of a layer of the module graph. \<^verbatim>\<open>select_quant_linear\<close> returns one of the
  packed classes; which one is decided outside this file.
\<close>

datatype ltype = Linear | ScaledLinear | QuantLinear string | OtherLayer string

text \<open>
  The value \<^verbatim>\<open>np.abs(err).max()\<close> is a NumPy scalar: a finite number (a rational),
  infinity or NaN. Its precision is that of the arrays the session and the model return,
  taken here to be single precision. Line 136 compares it with the literal \<^verbatim>\<open>1e-2\<close> at
  that precision, where the literal stands for the single-precision number nearest to
  1/100, which is \<open>5368709 / 2 ^ 29\<close>, just below 1/100. A comparison with NaN is false.
\<close>

datatype npfloat = Finite rat | Infinity | NaN

fun lt_1e_2 :: "npfloat \<Rightarrow> bool" where
  "lt_1e_2 (Finite r) = (r < 5368709 / 536870912)"
| "lt_1e_2 Infinity = False"
| "lt_1e_2 NaN = False"

text \<open>
  Values are kept symbolic. Tensors and quantizer objects are opaque (\<open>PObj\<close>); the results
  of \<^verbatim>\<open>unpack()\<close>, of \<^verbatim>\<open>.T\<close> and of \<^verbatim>\<open>pack_gpu\<close> are uninterpreted terms over their arguments,
  since the arithmetic and the bit layout live in the layer classes, outside this file.
\<close>

datatype pyval =
    PNone
  | PInt int
  | PStr string
  | PFloat npfloat
  | PObj string
  | PTuple "pyval list"
  | UnpackW pyval
  | UnpackS pyval
  | UnpackZ pyval
  | Transp pyval
  | Packed pyval pyval pyval pyval
  | Qdq pyval pyval pyval pyval

datatype error =
    ValueError string
  | UnboundLocalError string
  | KeyError string
  | IndexError
  | TypeError
  | AttributeError

text \<open>A layer object: its class and the attributes this file reads or passes on.\<close>

record layer =
  ltype :: ltype
  bits :: pyval
  group_size :: pyval
  infeatures :: pyval
  outfeatures :: pyval
  has_bias :: bool
  weight :: pyval

text \<open>
  The module graph, flattened to its named layers in traversal order. A dictionary is an
  association list in insertion order: \<open>map_of\<close> reads a key, \<open>AList.update\<close> assigns one
  (an existing key keeps its position, as in Python).
\<close>

type_synonym graph = "(string \<times> layer) list"
type_synonym quantizers = "(string \<times> pyval) list"

datatype info = LayerInfo pyval pyval | Method string
type_synonym quant_info = "(string \<times> info) list"

record quant_config =
  zero_point :: bool
  q_group_size :: int
  w_bit :: int
  version :: string

subsection \<open>The configuration object \<^verbatim>\<open>args\<close>\<close>

text \<open>
  \<^verbatim>\<open>args.load\<close> is a string or a path object (line 145 converts the second with
  \<^verbatim>\<open>as_posix()\<close>); a path object never prints as the empty string. Options that are only
  tested for truth and then used as strings are strings, the empty one meaning unset.
  \<^verbatim>\<open>args.quant_directory\<close> is compared with \<^verbatim>\<open>None\<close>, so it is an option.
\<close>

datatype path_or_str = Str string | PosixPath string

fun as_posix :: "path_or_str \<Rightarrow> string" where
  "as_posix (Str s) = s"
| "as_posix (PosixPath p) = (if p = [] then ''.'' else p)"

datatype mix_conf = ConfFile string | ConfDict "(string \<times> pyval) list"

fun conf_truthy :: "mix_conf \<Rightarrow> bool" where
  "conf_truthy (ConfFile p) = (p \<noteq> [])"
| "conf_truthy (ConfDict d) = (d \<noteq> [])"

record args =
  layers_dist :: string
  load :: path_or_str
  tokenizer :: string
  model :: string
  wbits :: int
  groupsize :: int
  nearest :: bool
  mix_qlayer_conf :: mix_conf
  pack_mode :: string
  method_name :: string
  quant_directory :: "string option"
  observe :: bool
  save :: string
  eval :: bool
  export_onnx_path :: string
  use_plugin :: bool
  save_safetensors :: string

subsection \<open>The environment: what the other modules return\<close>

record env =
  py_int :: "string \<Rightarrow> int option"
  from_quantized :: "string \<Rightarrow> graph"
  from_pretrained :: "string \<Rightarrow> graph"
  get_sample_datas :: "pyval list"
  json_load :: "string \<Rightarrow> (string \<times> pyval) list"
  quantize :: "graph \<Rightarrow> graph \<times> quantizers"
  select_quant_linear :: "string \<Rightarrow> int \<Rightarrow> ltype"
  has_awq_inference_engine :: bool
  DEV :: string
  exporter_export_onnx :: "string \<Rightarrow> string"
  num_hidden_layers :: nat
  max_abs_err :: npfloat

subsection \<open>Events, stages and the state\<close>

datatype content = JsonQuantInfo quant_info | JsonQuantConfig quant_config

datatype event =
    TokenizerFromPretrained string
  | FromQuantized string
  | FromPretrained string
  | ModelEval
  | GetSampleDatas
  | JsonLoad string
  | Quantize
  | FindLayers "ltype list"
  | SelectQuantLinear string int
  | MakeMixbitsQuantLinear ltype
  | SetOpByName string
  | Unpack string
  | PackGpu string
  | WeightQdq string
  | LayerTo string string
  | LogInfo string
  | LogWarning string
  | ExportQuantTable quantizers string
  | ModelSavePretrained string
  | TokenizerSavePretrained string
  | OpenW string
  | WriteF string content
  | ModelTo string
  | Tokenize string
  | Generate nat
  | PrintDecoded
  | CudaEmptyCache
  | ExporterExportOnnx string bool nat
  | InferenceSession string
  | SessionRun pyval pyval nat
  | ModelForward pyval
  | PrintOut "pyval list"
  | LoopInChatCompletion string
  | SafeSave string

text \<open>
  The blocks of \<^verbatim>\<open>run\<close>, in the order of the source text. Every event is tagged with the
  block that was running when it happened.
\<close>

datatype stage =
    LOAD | SAMPLE | CALIBRATE | PACK | QUANT_TABLE | SAVE | EVAL | EXPORT | SERVE
  | SAVE_SAFETENSORS

text \<open>
  The state holds the objects that are shared and updated in place: \<^verbatim>\<open>self.tokenizer\<close>, the
  module graph that the variable \<^verbatim>\<open>model\<close> refers to, and the dictionary that
  \<^verbatim>\<open>quantizer.quantize\<close> returns and \<^verbatim>\<open>run\<close> passes on by reference.
\<close>

record state =
  self_tokenizer :: "string option"
  module_graph :: graph
  quantizers_dict :: quantizers
  stage :: stage
  trace :: "(stage \<times> event) list"

text \<open>
  A method is a computation: from a state it yields a result, an error (\<open>Inl\<close>) or a
  value (\<open>Inr\<close>), and the new state. \<open>bindE\<close> runs two computations in sequence and
  stops at the first error, as an exception does; \<open>emit\<close> records an event under the
  current stage tag; \<open>in_stage\<close> sets the tag, which is bookkeeping with no counterpart in
  the source.
\<close>

type_synonym 'a comp = "state \<Rightarrow> (error + 'a) \<times> state"

definition ret :: "'a \<Rightarrow> 'a comp" where
  "ret x = (\<lambda>s. (Inr x, s))"

definition raise :: "error \<Rightarrow> 'a comp" where
  "raise e = (\<lambda>s. (Inl e, s))"

definition bindE :: "'a comp \<Rightarrow> ('a \<Rightarrow> 'b comp) \<Rightarrow> 'b comp" where
  "bindE m f = (\<lambda>s. case m s of (Inl e, s') \<Rightarrow> (Inl e, s') | (Inr x, s') \<Rightarrow> f x s')"

definition seqE :: "unit comp \<Rightarrow> 'b comp \<Rightarrow> 'b comp" where
  "seqE m n = bindE m (\<lambda>_. n)"

definition emit :: "event \<Rightarrow> unit comp" where
  "emit e = (\<lambda>s. (Inr (), s\<lparr>trace := trace s @ [(stage s, e)]\<rparr>))"

definition whenE :: "bool \<Rightarrow> unit comp \<Rightarrow> unit comp" where
  "whenE b m = (if b then m else ret ())"

definition in_stage :: "stage \<Rightarrow> 'a comp \<Rightarrow> 'a comp" where
  "in_stage k m = (\<lambda>s. m (s\<lparr>stage := k\<rparr>))"

definition lift :: "error + 'a \<Rightarrow> 'a comp" where
  "lift r = (\<lambda>s. (r, s))"

definition get_graph :: "graph comp" where
  "get_graph = (\<lambda>s. (Inr (module_graph s), s))"

definition set_graph :: "graph \<Rightarrow> unit comp" where
  "set_graph g = (\<lambda>s. (Inr (), s\<lparr>module_graph := g\<rparr>))"

definition get_quantizers :: "quantizers comp" where
  "get_quantizers = (\<lambda>s. (Inr (quantizers_dict s), s))"

definition set_quantizers :: "quantizers \<Rightarrow> unit comp" where
  "set_quantizers q = (\<lambda>s. (Inr (), s\<lparr>quantizers_dict := q\<rparr>))"

definition set_tokenizer :: "string \<Rightarrow> unit comp" where
  "set_tokenizer t = (\<lambda>s. (Inr (), s\<lparr>self_tokenizer := Some t\<rparr>))"

text \<open>
  \<^verbatim>\<open>__init__\<close>: \<^verbatim>\<open>self.quant_layers = [torch.nn.Linear]\<close>, \<^verbatim>\<open>self.tokenizer = None\<close>. The state
  \<open>init\<close> is that of a new object, before \<^verbatim>\<open>run\<close> has loaded anything.
\<close>

definition quant_layers :: "ltype list" where
  "quant_layers = [Linear]"

definition init :: state where
  "init = \<lparr>self_tokenizer = None, module_graph = [], quantizers_dict = [], stage = LOAD,
     trace = []\<rparr>"

text \<open>Line 25: the module constant \<^verbatim>\<open>NEED_CHECK_PACK = False\<close>.\<close>

definition NEED_CHECK_PACK :: bool where
  "NEED_CHECK_PACK = False"

subsection \<open>Python operations used by the methods\<close>

text \<open>\<^verbatim>\<open>s.split(':')\<close>: the pieces between the separators; always at least one piece.\<close>

fun split_on :: "char \<Rightarrow> string \<Rightarrow> string list" where
  "split_on c [] = [[]]"
| "split_on c (x # xs) =
     (if x = c then [] # split_on c xs
      else (case split_on c xs of [] \<Rightarrow> [[x]] | w # ws \<Rightarrow> (x # w) # ws))"

text \<open>
  \<^verbatim>\<open>[int(x) for x in parts]\<close>: \<^verbatim>\<open>int\<close> raises \<^verbatim>\<open>ValueError\<close> on the first piece that is not
  an integer literal. Which strings are literals is the environment's \<open>py_int\<close>.
\<close>

fun ints_of :: "env \<Rightarrow> string list \<Rightarrow> error + int list" where
  "ints_of env [] = Inr []"
| "ints_of env (x # xs) =
     (case py_int env x of
        None \<Rightarrow> Inl (ValueError ''invalid literal for int()'')
      | Some i \<Rightarrow> (case ints_of env xs of Inl e \<Rightarrow> Inl e | Inr is \<Rightarrow> Inr (i # is)))"

text \<open>
  \<^verbatim>\<open>value[-k]\<close> for \<open>k > 0\<close> and \<^verbatim>\<open>value[i]\<close>. The sequences of the embedding are the tuples:
  the entries of the dictionary of the quantizer and the items of the sample data are
  tuples. A list or a string in their place, which Python would subscript as well, is not
  among the values of the embedding; on every value that is not a tuple the embedding
  answers with \<^verbatim>\<open>TypeError\<close>, as Python does for \<^verbatim>\<open>None\<close> and for a number.
\<close>

fun index_from_end :: "pyval \<Rightarrow> nat \<Rightarrow> error + pyval" where
  "index_from_end (PTuple xs) k =
     (if 0 < k \<and> k \<le> length xs then Inr (xs ! (length xs - k)) else Inl IndexError)"
| "index_from_end v k = Inl TypeError"

fun subscript :: "pyval \<Rightarrow> nat \<Rightarrow> error + pyval" where
  "subscript (PTuple xs) i = (if i < length xs then Inr (xs ! i) else Inl IndexError)"
| "subscript v i = Inl TypeError"

text \<open>\<^verbatim>\<open>d[k]\<close> on a dictionary with string keys.\<close>

definition lookup :: "(string \<times> 'v) list \<Rightarrow> string \<Rightarrow> error + 'v" where
  "lookup d k = (case map_of d k of None \<Rightarrow> Inl (KeyError k) | Some v \<Rightarrow> Inr v)"

text \<open>
  \<^verbatim>\<open>a, scale, zero, g_idx, _, _ = v\<close>: the right-hand side must be a sequence of exactly six
  items, else nothing is assigned. As above, the sequences of the embedding are the tuples.
\<close>

fun unpack6 :: "pyval \<Rightarrow> error + (pyval \<times> pyval \<times> pyval \<times> pyval)" where
  "unpack6 (PTuple [a, b, c, d, e, f]) = Inr (a, b, c, d)"
| "unpack6 (PTuple xs) = Inl (ValueError ''values to unpack'')"
| "unpack6 v = Inl TypeError"

subsection \<open>Helpers of \<^verbatim>\<open>qllm.utils\<close>\<close>

text \<open>
  Modelled from the spec: \<^verbatim>\<open>find_layers\<close> of \<^verbatim>\<open>qllm/utils\<close> is not among the sources. The
  spec (4.1) has it return every layer whose runtime type is among the target types, keyed
  by name, with no side effect and no failure on zero matches.
\<close>

definition find_layers :: "graph \<Rightarrow> ltype list \<Rightarrow> graph" where
  "find_layers g types = filter (\<lambda>(n, l). ltype l \<in> set types) g"

text \<open>
  Modelled from the spec: \<^verbatim>\<open>set_op_by_name\<close> of \<^verbatim>\<open>qllm/utils/modelutils\<close> is not among
  the sources. The spec (4.3) has layers replaced in the graph under the same dotted name,
  at the same position.
\<close>

definition set_op_by_name :: "graph \<Rightarrow> string \<Rightarrow> layer \<Rightarrow> graph" where
  "set_op_by_name g name new_module =
     map (\<lambda>(n, l). if n = name then (n, new_module) else (n, l)) g"

text \<open>
  Modelled from the spec: \<^verbatim>\<open>make_mixbits_quant_linear\<close> of \<^verbatim>\<open>qllm/utils/modelutils\<close> is
  not among the sources. The spec (4.3) has it construct, for each layer name of the
  quantization parameters, a packed layer of the target class with that layer's bit width
  and group size, and put it in place of the original layer; all other layers stay.
\<close>

definition make_mixbits_quant_linear :: "graph \<Rightarrow> quantizers \<Rightarrow> quant_info \<Rightarrow> ltype \<Rightarrow> graph" where
  "make_mixbits_quant_linear g names quant_info target_layer =
     map (\<lambda>(n, l).
       (case (map_of names n, map_of quant_info n) of
          (Some v, Some (LayerInfo w gs)) \<Rightarrow>
            (n, \<lparr>ltype = target_layer, bits = w, group_size = gs, infeatures = infeatures l,
                 outfeatures = outfeatures l, has_bias = has_bias l, weight = PNone\<rparr>)
        | _ \<Rightarrow> (n, l))) g"

subsection \<open>\<^verbatim>\<open>get_torch_model\<close> and \<^verbatim>\<open>__load_quant\<close> (lines 33 to 43)\<close>

definition get_torch_model :: "env \<Rightarrow> args \<Rightarrow> unit comp" where
  "get_torch_model env args =
     seqE (emit (TokenizerFromPretrained (model args)))
    (seqE (set_tokenizer (model args))
    (seqE (emit (FromPretrained (model args)))
          (set_graph (from_pretrained env (model args)))))"

definition load_quant :: "env \<Rightarrow> args \<Rightarrow> unit comp" where
  "load_quant env args =
     seqE (emit (TokenizerFromPretrained (as_posix (load args))))
    (seqE (set_tokenizer (as_posix (load args)))
    (seqE (emit (FromQuantized (as_posix (load args))))
          (set_graph (from_quantized env (as_posix (load args))))))"

subsection \<open>\<^verbatim>\<open>__quant_by_sequential\<close> (lines 47 to 50)\<close>

text \<open>
  The quantizer may rewrite the weights of the graph it is given; it returns the dictionary
  of per-layer parameters, which the state keeps as the object \<open>quantizers_dict\<close>.
\<close>

definition quant_by_sequential :: "env \<Rightarrow> unit comp" where
  "quant_by_sequential env =
     seqE (emit Quantize)
    (bindE get_graph (\<lambda>g.
     seqE (set_graph (fst (quantize env g)))
          (set_quantizers (snd (quantize env g)))))"

subsection \<open>\<^verbatim>\<open>repack_to_new_mode\<close> (lines 97 to 112)\<close>

fun repack_loop :: "ltype \<Rightarrow> int \<Rightarrow> int \<Rightarrow> (string \<times> layer) list \<Rightarrow> unit comp" where
  "repack_loop target_layer nbits gsize [] = ret ()"
| "repack_loop target_layer nbits gsize ((module_name, qlayer) # rest) =
     seqE (emit (Unpack module_name))
    (let fp16_weight = UnpackW (weight qlayer);
         scales = UnpackS (weight qlayer);
         zeros = UnpackZ (weight qlayer);
         tmp = qlayer\<lparr>weight := fp16_weight\<rparr>;
         new_module = \<lparr>ltype = target_layer, bits = PInt nbits, group_size = PInt gsize,
           infeatures = infeatures tmp, outfeatures = outfeatures tmp,
           has_bias = has_bias tmp, weight = PNone\<rparr>
     in seqE (emit (SetOpByName module_name))
       (seqE (bindE get_graph (\<lambda>g. set_graph (set_op_by_name g module_name new_module)))
       (seqE (emit (PackGpu module_name))
       (seqE (bindE get_graph (\<lambda>g. set_graph (set_op_by_name g module_name
                (new_module\<lparr>weight := Packed (weight tmp) (Transp scales) (Transp zeros) PNone\<rparr>))))
       (seqE (emit (LayerTo module_name ''cpu''))
             (repack_loop target_layer nbits gsize rest))))))"

definition repack_to_new_mode :: "env \<Rightarrow> args \<Rightarrow> string \<Rightarrow> unit comp" where
  "repack_to_new_mode env args new_pack_mode =
     (let nbits = wbits args; gsize = groupsize args in
      seqE (emit (SelectQuantLinear (pack_mode args) (wbits args)))
     (let source_layer = select_quant_linear env (pack_mode args) (wbits args) in
      seqE (emit (SelectQuantLinear new_pack_mode (wbits args)))
     (let target_layer = select_quant_linear env new_pack_mode (wbits args) in
      seqE (emit (FindLayers [source_layer]))
     (bindE get_graph (\<lambda>g.
      seqE (repack_loop target_layer nbits gsize (find_layers g [source_layer]))
           (emit CudaEmptyCache))))))"

subsection \<open>\<^verbatim>\<open>pack_model\<close> (lines 71 to 95)\<close>

text \<open>Line 73: \<^verbatim>\<open>{n: attention_layers[n] for n in quantizers}\<close>.\<close>

fun select_layers :: "graph \<Rightarrow> string list \<Rightarrow> graph \<Rightarrow> error + graph" where
  "select_layers found [] acc = Inr acc"
| "select_layers found (n # ns) acc =
     (case lookup found n of
        Inl e \<Rightarrow> Inl e
      | Inr l \<Rightarrow> select_layers found ns (AList.update n l acc))"

text \<open>Line 76: \<^verbatim>\<open>{key: {"wbits": value[-2], "groupsize": value[-1]} for key, value in ...}\<close>.\<close>

fun build_quant_info :: "quantizers \<Rightarrow> quant_info \<Rightarrow> error + quant_info" where
  "build_quant_info [] acc = Inr acc"
| "build_quant_info ((key, v) # rest) acc =
     (case index_from_end v 2 of
        Inl e \<Rightarrow> Inl e
      | Inr w \<Rightarrow>
          (case index_from_end v 1 of
             Inl e \<Rightarrow> Inl e
           | Inr gs \<Rightarrow> build_quant_info rest (AList.update key (LayerInfo w gs) acc)))"

text \<open>
  \<^verbatim>\<open>qlayer.pack_gpu(lin, scale, zero, g_idx)\<close> fills the buffers of the layer called
  \<open>name\<close> from the weight of \<open>lin\<close>; the result is kept symbolic.
\<close>

definition pack_gpu :: "graph \<Rightarrow> string \<Rightarrow> layer \<Rightarrow> pyval \<Rightarrow> pyval \<Rightarrow> pyval \<Rightarrow> graph" where
  "pack_gpu g name lin scale zero g_idx =
     map (\<lambda>(n, l). if n = name then (n, l\<lparr>weight := Packed (weight lin) scale zero g_idx\<rparr>)
                    else (n, l)) g"

text \<open>
  Lines 83 to 93, one iteration per name of \<^verbatim>\<open>qlayers\<close>. Line 84 reads the entry of the
  dictionary, unpacks it and stores its first item back under the same key.
\<close>

fun pack_loop :: "graph \<Rightarrow> string list \<Rightarrow> unit comp" where
  "pack_loop attention_layers [] = ret ()"
| "pack_loop attention_layers (name # names) =
     bindE get_quantizers (\<lambda>quantizers.
     bindE (lift (lookup quantizers name)) (\<lambda>v.
     bindE (lift (unpack6 v)) (\<lambda>(q, scale, zero, g_idx).
     seqE (set_quantizers (AList.update name q quantizers))
    (bindE (if NEED_CHECK_PACK
            then bindE (lift (lookup attention_layers name)) (\<lambda>lin.
                 seqE (emit (WeightQdq name))
                (seqE (emit (WeightQdq name))
                      (ret (AList.update name
                         (lin\<lparr>weight := Qdq (weight lin) scale zero g_idx\<rparr>)
                         attention_layers))))
            else ret attention_layers) (\<lambda>attention_layers'.
     bindE (lift (lookup attention_layers' name)) (\<lambda>lin.
     seqE (emit (PackGpu name))
    (seqE (bindE get_graph (\<lambda>g. set_graph (pack_gpu g name lin scale zero g_idx)))
          (pack_loop attention_layers' names))))))))"

text \<open>
  The method returns \<^verbatim>\<open>(model, quant_info, quant_config)\<close>; the model is the graph of the
  state. The argument \<^verbatim>\<open>quantizers\<close> is the dictionary object of the state.
\<close>

definition pack_model :: "env \<Rightarrow> args \<Rightarrow> (quant_info \<times> quant_config) comp" where
  "pack_model env args =
     seqE (emit (FindLayers (quant_layers @ [ScaledLinear])))
    (bindE get_graph (\<lambda>g.
     bindE get_quantizers (\<lambda>quantizers.
     bindE (lift (select_layers (find_layers g (quant_layers @ [ScaledLinear]))
                    (map fst quantizers) [])) (\<lambda>attention_layers.
     let quant_config = \<lparr>zero_point = True, q_group_size = groupsize args,
                          w_bit = wbits args, version = pack_mode args\<rparr> in
     bindE (lift (build_quant_info quantizers [])) (\<lambda>quant_info0.
     let quant_info = AList.update ''method'' (Method (method_name args)) quant_info0 in
     seqE (emit (SelectQuantLinear (pack_mode args) (wbits args)))
    (let target_layer = select_quant_linear env (pack_mode args) (wbits args) in
     seqE (emit (MakeMixbitsQuantLinear target_layer))
    (seqE (set_graph (make_mixbits_quant_linear g quantizers quant_info target_layer))
    (seqE (emit (FindLayers [target_layer]))
    (bindE get_graph (\<lambda>g'.
     seqE (pack_loop attention_layers (map fst (find_layers g' [target_layer])))
          (ret (quant_info, quant_config))))))))))))"

subsection \<open>\<^verbatim>\<open>eval_model\<close> (lines 53 to 68)\<close>

definition eval_model :: "env \<Rightarrow> string \<Rightarrow> args \<Rightarrow> unit comp" where
  "eval_model env dev args =
     seqE (emit (LogInfo ''Evaluating ...''))
    (seqE (whenE (\<not> has_awq_inference_engine env \<and> pack_mode args = ''GEMM'')
            (seqE (emit (LogWarning
               ''AWQ inference engine not found, will convert to GPTQ packing for inference.''))
                  (repack_to_new_mode env args ''GPTQ'')))
    (seqE (emit ModelEval)
    (seqE (emit (ModelTo dev))
    (seqE (\<lambda>s. case self_tokenizer s of None \<Rightarrow> raise TypeError s
                 | Some t \<Rightarrow> emit (Tokenize ''compared with awq, gptq is'') s)
    (seqE (emit (Generate 50))
    (seqE (emit (ModelTo ''cpu''))
          (emit PrintDecoded)))))))"

subsection \<open>\<^verbatim>\<open>export_onnx\<close> (lines 115 to 136)\<close>

text \<open>\<^verbatim>\<open>self.tokenizer.save_pretrained(path)\<close>; on \<^verbatim>\<open>None\<close> the attribute is missing.\<close>

definition tokenizer_save_pretrained :: "string \<Rightarrow> unit comp" where
  "tokenizer_save_pretrained path =
     (\<lambda>s. case self_tokenizer s of None \<Rightarrow> raise AttributeError s
           | Some t \<Rightarrow> emit (TokenizerSavePretrained path) s)"

definition export_onnx :: "env \<Rightarrow> string \<Rightarrow> pyval \<Rightarrow> bool \<Rightarrow> args \<Rightarrow> unit comp" where
  "export_onnx env onnx_path_str sample_inputs with_past args =
     seqE (whenE (pack_mode args \<noteq> ''ORT'') (repack_to_new_mode env args ''ORT''))
    (let opset = 16; onnx_model_path = exporter_export_onnx env onnx_path_str in
     seqE (emit (ExporterExportOnnx onnx_path_str with_past opset))
    (seqE (tokenizer_save_pretrained onnx_path_str)
    (seqE (emit (InferenceSession onnx_model_path))
    (bindE (lift (subscript sample_inputs 1)) (\<lambda>m.
     bindE (lift (subscript sample_inputs 0)) (\<lambda>input_ids.
     let mask = (if m = PNone then PObj ''np.ones'' else m) in
     seqE (emit (SessionRun input_ids mask (num_hidden_layers env)))
    (seqE (emit (ModelForward input_ids))
          (emit (PrintOut [PStr ''max abs err:'', PFloat (max_abs_err env),
             PStr ''correctness check '',
             PStr (if lt_1e_2 (max_abs_err env) then [] else ''not''),
             PStr '' passed''])))))))))"

subsection \<open>\<^verbatim>\<open>run\<close> (lines 139 to 197)\<close>

text \<open>Lines 140 to 143: \<^verbatim>\<open>gpu_dist\<close>.\<close>

definition gpu_dist_of :: "env \<Rightarrow> args \<Rightarrow> error + int list" where
  "gpu_dist_of env args =
     (if layers_dist args \<noteq> [] then ints_of env (split_on CHR '':'' (layers_dist args))
      else Inr [])"

text \<open>Lines 145 and 146: a path object is replaced by its string.\<close>

definition normalise_load :: "args \<Rightarrow> args" where
  "normalise_load args =
     (case load args of
        Str s \<Rightarrow> args
      | PosixPath p \<Rightarrow> args\<lparr>load := Str (as_posix (load args))\<rparr>)"

text \<open>Lines 148 and 149: the default of \<^verbatim>\<open>args.tokenizer\<close>.\<close>

definition default_tokenizer :: "args \<Rightarrow> args" where
  "default_tokenizer args =
     (if tokenizer args = []
      then args\<lparr>tokenizer := (if model args \<noteq> [] then model args else as_posix (load args))\<rparr>
      else args)"

definition either_msg :: string where
  "either_msg =
     ''either --model or --load must be specified. Please run with `-h` to refer the usage.''"

text \<open>Lines 151 to 159: LOAD.\<close>

definition load_block :: "env \<Rightarrow> args \<Rightarrow> unit comp" where
  "load_block env args =
     (if as_posix (load args) \<noteq> [] then seqE (load_quant env args) (emit ModelEval)
      else if model args \<noteq> [] then seqE (get_torch_model env args) (emit ModelEval)
      else raise (ValueError either_msg))"

text \<open>Line 161: the calibration samples.\<close>

definition sample_block :: "env \<Rightarrow> pyval list comp" where
  "sample_block env = seqE (emit GetSampleDatas) (ret (get_sample_datas env))"

text \<open>
  Lines 163 to 171: CALIBRATE and PACK. The block binds the local variables
  \<^verbatim>\<open>quantizers\<close>, \<^verbatim>\<open>quant_info\<close> and \<^verbatim>\<open>quant_config\<close>; when it is skipped they stay unbound,
  which is the result \<open>None\<close>. The elapsed time of the log line is not modelled.
\<close>

definition calibrate_block :: "env \<Rightarrow> args \<Rightarrow> args comp" where
  "calibrate_block env args =
     bindE (if conf_truthy (mix_qlayer_conf args)
            then (case mix_qlayer_conf args of
                    ConfFile p \<Rightarrow>
                      seqE (emit (JsonLoad p))
                           (ret (args\<lparr>mix_qlayer_conf := ConfDict (json_load env p)\<rparr>))
                  | ConfDict d \<Rightarrow> raise TypeError)
            else ret (args\<lparr>mix_qlayer_conf := ConfDict []\<rparr>)) (\<lambda>args'.
     seqE (quant_by_sequential env) (ret args'))"

definition pack_block :: "env \<Rightarrow> args \<Rightarrow> (quant_info \<times> quant_config) comp" where
  "pack_block env args =
     bindE (pack_model env args) (\<lambda>r.
     seqE (emit (LogInfo ''Finished quantization and packing weight, time cost:''))
          (ret r))"

definition calibrate_pack_block ::
  "env \<Rightarrow> args \<Rightarrow> (args \<times> (quant_info \<times> quant_config) option) comp" where
  "calibrate_pack_block env args =
     (if as_posix (load args) = [] \<and> wbits args < 16 \<and> \<not> nearest args
      then bindE (in_stage CALIBRATE (calibrate_block env args)) (\<lambda>args'.
           bindE (in_stage PACK (pack_block env args')) (\<lambda>r.
           ret (args', Some r)))
      else ret (args, None))"

text \<open>Lines 173 and 174: the quantization table.\<close>

definition quant_table_block :: "args \<Rightarrow> (quant_info \<times> quant_config) option \<Rightarrow> unit comp" where
  "quant_table_block args locals =
     (case quant_directory args of
        None \<Rightarrow> ret ()
      | Some dir \<Rightarrow>
          (case locals of
             None \<Rightarrow> raise (UnboundLocalError ''quantizers'')
           | Some r \<Rightarrow> bindE get_quantizers (\<lambda>quantizers. emit (ExportQuantTable quantizers dir))))"

text \<open>
  Lines 176 to 181: SAVE. In \<^verbatim>\<open>open(p, 'w').write(json.dumps(x))\<close> the file is opened before
  the argument of \<^verbatim>\<open>write\<close> is evaluated.
\<close>

definition save_block :: "args \<Rightarrow> (quant_info \<times> quant_config) option \<Rightarrow> unit comp" where
  "save_block args locals =
     whenE (\<not> observe args \<and> save args \<noteq> [])
      (seqE (emit (ModelSavePretrained (save args)))
      (seqE (tokenizer_save_pretrained (save args))
      (seqE (emit (OpenW (save args @ ''/quant.op.json'')))
      (bindE (case locals of None \<Rightarrow> raise (UnboundLocalError ''quant_info'')
              | Some r \<Rightarrow> ret (fst r)) (\<lambda>quant_info.
       seqE (emit (WriteF (save args @ ''/quant.op.json'') (JsonQuantInfo quant_info)))
      (seqE (emit (OpenW (save args @ ''/quant_config.json'')))
      (bindE (case locals of None \<Rightarrow> raise (UnboundLocalError ''quant_config'')
              | Some r \<Rightarrow> ret (snd r)) (\<lambda>quant_config.
       emit (WriteF (save args @ ''/quant_config.json'') (JsonQuantConfig quant_config))))))))))"

text \<open>Lines 183 and 184: EVAL.\<close>

definition eval_block :: "env \<Rightarrow> args \<Rightarrow> unit comp" where
  "eval_block env args = whenE (eval args) (eval_model env (DEV env) args)"

text \<open>Lines 186 and 187: EXPORT. \<^verbatim>\<open>inputs_dataloader[0]\<close> is evaluated before the call.\<close>

definition export_block :: "env \<Rightarrow> args \<Rightarrow> pyval list \<Rightarrow> unit comp" where
  "export_block env args inputs_dataloader =
     whenE (export_onnx_path args \<noteq> [])
       (case inputs_dataloader of
          [] \<Rightarrow> raise IndexError
        | sample_inputs # rest \<Rightarrow>
            export_onnx env (export_onnx_path args) sample_inputs True args)"

text \<open>Lines 189 to 191: SERVE.\<close>

definition serve_block :: "args \<Rightarrow> unit comp" where
  "serve_block args = whenE (use_plugin args) (emit (LoopInChatCompletion (tokenizer args)))"

text \<open>Lines 193 to 197: the safetensors file.\<close>

definition safetensors_block :: "args \<Rightarrow> unit comp" where
  "safetensors_block args =
     whenE (\<not> observe args \<and> save_safetensors args \<noteq> [])
       (emit (SafeSave (save_safetensors args)))"

text \<open>Lines 163 to 197: the blocks after the samples were fetched.\<close>

definition run_stages :: "env \<Rightarrow> args \<Rightarrow> pyval list \<Rightarrow> unit comp" where
  "run_stages env args inputs_dataloader =
     bindE (calibrate_pack_block env args) (\<lambda>(args', locals).
     seqE (in_stage QUANT_TABLE (quant_table_block args' locals))
    (seqE (in_stage SAVE (save_block args' locals))
    (seqE (in_stage EVAL (eval_block env args'))
    (seqE (in_stage EXPORT (export_block env args' inputs_dataloader))
    (seqE (in_stage SERVE (serve_block args'))
          (in_stage SAVE_SAFETENSORS (safetensors_block args')))))))"

definition run :: "env \<Rightarrow> args \<Rightarrow> unit comp" where
  "run env args0 =
     bindE (lift (gpu_dist_of env args0)) (\<lambda>gpu_dist.
     let args = default_tokenizer (normalise_load args0) in
     seqE (in_stage LOAD (load_block env args))
    (bindE (in_stage SAMPLE (sample_block env)) (\<lambda>inputs_dataloader.
     run_stages env args inputs_dataloader)))"

subsection \<open>Notions used in the statements\<close>

text \<open>
  The events that persist quantization metadata: a write to one of the two JSON documents
  and the export of the quantization table.
\<close>

fun persists_metadata :: "event \<Rightarrow> bool" where
  "persists_metadata (WriteF p c) = True"
| "persists_metadata (ExportQuantTable q d) = True"
| "persists_metadata e = False"

text \<open>
  The position of each block in the source text of \<^verbatim>\<open>run\<close>, and the position the spec
  gives it in its pipeline \<^verbatim>\<open>LOAD, CALIBRATE, PACK, SAVE, EVAL, EXPORT, SERVE\<close>, where the
  samples are fetched with LOAD and every persisting block counts as SAVE.
\<close>

fun block_rank :: "stage \<Rightarrow> nat" where
  "block_rank LOAD = 0"
| "block_rank SAMPLE = 1"
| "block_rank CALIBRATE = 2"
| "block_rank PACK = 3"
| "block_rank QUANT_TABLE = 4"
| "block_rank SAVE = 5"
| "block_rank EVAL = 6"
| "block_rank EXPORT = 7"
| "block_rank SERVE = 8"
| "block_rank SAVE_SAFETENSORS = 9"

fun spec_rank :: "stage \<Rightarrow> nat" where
  "spec_rank LOAD = 0"
| "spec_rank SAMPLE = 0"
| "spec_rank CALIBRATE = 1"
| "spec_rank PACK = 2"
| "spec_rank QUANT_TABLE = 3"
| "spec_rank SAVE = 3"
| "spec_rank SAVE_SAFETENSORS = 3"
| "spec_rank EVAL = 4"
| "spec_rank EXPORT = 5"
| "spec_rank SERVE = 6"

text \<open>
  What \<^verbatim>\<open>repack_to_new_mode\<close> does, as pure functions: the layer that replaces a packed
  layer, the graph after all layers of the source class were replaced, and the calls it
  makes, in order.
\<close>

definition repacked :: "ltype \<Rightarrow> int \<Rightarrow> int \<Rightarrow> layer \<Rightarrow> layer" where
  "repacked target_layer nbits gsize qlayer =
     \<lparr>ltype = target_layer, bits = PInt nbits, group_size = PInt gsize,
      infeatures = infeatures qlayer, outfeatures = outfeatures qlayer,
      has_bias = has_bias qlayer,
      weight = Packed (UnpackW (weight qlayer)) (Transp (UnpackS (weight qlayer)))
                 (Transp (UnpackZ (weight qlayer))) PNone\<rparr>"

definition repack_graph :: "ltype \<Rightarrow> ltype \<Rightarrow> int \<Rightarrow> int \<Rightarrow> graph \<Rightarrow> graph" where
  "repack_graph source_layer target_layer nbits gsize g =
     map (\<lambda>(n, l). if ltype l = source_layer then (n, repacked target_layer nbits gsize l)
                    else (n, l)) g"

definition repack_calls :: "graph \<Rightarrow> event list" where
  "repack_calls qlayers =
     concat (map (\<lambda>(n, l). [Unpack n, SetOpByName n, PackGpu n, LayerTo n ''cpu'']) qlayers)"

definition repack_events :: "env \<Rightarrow> args \<Rightarrow> string \<Rightarrow> graph \<Rightarrow> event list" where
  "repack_events env args new_pack_mode g =
     [SelectQuantLinear (pack_mode args) (wbits args),
      SelectQuantLinear new_pack_mode (wbits args),
      FindLayers [select_quant_linear env (pack_mode args) (wbits args)]]
     @ repack_calls (find_layers g [select_quant_linear env (pack_mode args) (wbits args)])
     @ [CudaEmptyCache]"

fun is_warning :: "event \<Rightarrow> bool" where
  "is_warning (LogWarning m) = True"
| "is_warning e = False"

text \<open>
  The calls of \<^verbatim>\<open>export_onnx\<close> from the export itself to the report of the consistency
  check.
\<close>

definition verification_events :: "env \<Rightarrow> string \<Rightarrow> bool \<Rightarrow> pyval \<Rightarrow> pyval \<Rightarrow> event list" where
  "verification_events env onnx_path_str with_past input_ids m =
     [ExporterExportOnnx onnx_path_str with_past 16,
      TokenizerSavePretrained onnx_path_str,
      InferenceSession (exporter_export_onnx env onnx_path_str),
      SessionRun input_ids (if m = PNone then PObj ''np.ones'' else m) (num_hidden_layers env),
      ModelForward input_ids,
      PrintOut [PStr ''max abs err:'', PFloat (max_abs_err env), PStr ''correctness check '',
        PStr (if lt_1e_2 (max_abs_err env) then [] else ''not''), PStr '' passed'']]"

text \<open>
  The blocks of \<^verbatim>\<open>run\<close> in which the source text makes each call. Most calls occur in one
  block. \<^verbatim>\<open>model.eval()\<close> is called when the model is loaded (lines 153 and 156) and by
  \<^verbatim>\<open>eval_model\<close> (line 61); \<^verbatim>\<open>find_layers\<close>, \<^verbatim>\<open>select_quant_linear\<close> and \<^verbatim>\<open>pack_gpu\<close> are
  called by \<^verbatim>\<open>pack_model\<close> and by \<^verbatim>\<open>repack_to_new_mode\<close>, which runs inside EVAL and inside
  EXPORT; \<^verbatim>\<open>logger.info\<close> is called at the end of PACK (line 171) and by \<^verbatim>\<open>eval_model\<close>;
  \<^verbatim>\<open>tokenizer.save_pretrained\<close> is called by SAVE (line 178) and by \<^verbatim>\<open>export_onnx\<close>
  (line 121).
\<close>

fun blocks_of :: "event \<Rightarrow> stage list" where
  "blocks_of (TokenizerFromPretrained p) = [LOAD]"
| "blocks_of (FromQuantized p) = [LOAD]"
| "blocks_of (FromPretrained p) = [LOAD]"
| "blocks_of ModelEval = [LOAD, EVAL]"
| "blocks_of GetSampleDatas = [SAMPLE]"
| "blocks_of (JsonLoad p) = [CALIBRATE]"
| "blocks_of Quantize = [CALIBRATE]"
| "blocks_of (FindLayers ts) = [PACK, EVAL, EXPORT]"
| "blocks_of (SelectQuantLinear m b) = [PACK, EVAL, EXPORT]"
| "blocks_of (MakeMixbitsQuantLinear t) = [PACK]"
| "blocks_of (PackGpu n) = [PACK, EVAL, EXPORT]"
| "blocks_of (WeightQdq n) = [PACK]"
| "blocks_of (LogInfo m) = [PACK, EVAL]"
| "blocks_of (ExportQuantTable q d) = [QUANT_TABLE]"
| "blocks_of (ModelSavePretrained p) = [SAVE]"
| "blocks_of (TokenizerSavePretrained p) = [SAVE, EXPORT]"
| "blocks_of (OpenW p) = [SAVE]"
| "blocks_of (WriteF p c) = [SAVE]"
| "blocks_of (LogWarning m) = [EVAL]"
| "blocks_of (ModelTo d) = [EVAL]"
| "blocks_of (Tokenize t) = [EVAL]"
| "blocks_of (Generate n) = [EVAL]"
| "blocks_of PrintDecoded = [EVAL]"
| "blocks_of (SetOpByName n) = [EVAL, EXPORT]"
| "blocks_of (Unpack n) = [EVAL, EXPORT]"
| "blocks_of (LayerTo n d) = [EVAL, EXPORT]"
| "blocks_of CudaEmptyCache = [EVAL, EXPORT]"
| "blocks_of (ExporterExportOnnx p w n) = [EXPORT]"
| "blocks_of (InferenceSession p) = [EXPORT]"
| "blocks_of (SessionRun i m n) = [EXPORT]"
| "blocks_of (ModelForward i) = [EXPORT]"
| "blocks_of (PrintOut xs) = [EXPORT]"
| "blocks_of (LoopInChatCompletion t) = [SERVE]"
| "blocks_of (SafeSave p) = [SAVE_SAFETENSORS]"

text \<open>
  The writes of the SAVE block into the save directory (lines 177 to 181): the model, the
  tokenizer, and the two JSON documents. The call of \<^verbatim>\<open>tokenizer.save_pretrained\<close> made by
  \<^verbatim>\<open>export_onnx\<close> writes beside the exported graph and belongs to EXPORT. Then the calls that
  only \<^verbatim>\<open>eval_model\<close>, \<^verbatim>\<open>export_onnx\<close> and the chat plugin make, and the write of the
  safetensors file (line 197).
\<close>

fun save_dir_write :: "stage \<times> event \<Rightarrow> bool" where
  "save_dir_write (k, ModelSavePretrained p) = True"
| "save_dir_write (k, TokenizerSavePretrained p) = (k = SAVE)"
| "save_dir_write (k, OpenW p) = True"
| "save_dir_write (k, WriteF p c) = True"
| "save_dir_write (k, e) = False"

fun eval_export_serve :: "event \<Rightarrow> bool" where
  "eval_export_serve (LogWarning m) = True"
| "eval_export_serve (ModelTo d) = True"
| "eval_export_serve (Tokenize t) = True"
| "eval_export_serve (Generate n) = True"
| "eval_export_serve PrintDecoded = True"
| "eval_export_serve (SetOpByName n) = True"
| "eval_export_serve (Unpack n) = True"
| "eval_export_serve (LayerTo n d) = True"
| "eval_export_serve CudaEmptyCache = True"
| "eval_export_serve (ExporterExportOnnx p w n) = True"
| "eval_export_serve (InferenceSession p) = True"
| "eval_export_serve (SessionRun i m n) = True"
| "eval_export_serve (ModelForward i) = True"
| "eval_export_serve (PrintOut xs) = True"
| "eval_export_serve (LoopInChatCompletion t) = True"
| "eval_export_serve e = False"

fun safetensors_write :: "event \<Rightarrow> bool" where
  "safetensors_write (SafeSave p) = True"
| "safetensors_write e = False"

text \<open>The class, the bit width and the group size of every layer of a graph.\<close>

definition widths :: "graph \<Rightarrow> (string \<times> ltype \<times> pyval \<times> pyval) list" where
  "widths g = map (\<lambda>(n, l). (n, ltype l, bits l, group_size l)) g"

text \<open>
  Modelled from the spec: the arithmetic of \<^verbatim>\<open>pack_gpu\<close> and \<^verbatim>\<open>unpack\<close> is in the layer
  classes, which are not among the sources. The spec (4.3) has packing quantize each weight
  relative to the scale and zero point of its group, \<^verbatim>\<open>q = round(w/scale) + zero_point\<close>,
  clamped to \<^verbatim>\<open>[0, 2^bits - 1]\<close>; unpacking gives back the weight \<^verbatim>\<open>scale * (q - zero_point)\<close>.
  \<open>repack_codes\<close> is what a layer constructed with \<open>nbits\<close> bits (line 106) stores after
  \<^verbatim>\<open>pack_gpu\<close> (line 108) was given the unpacked weights (line 103) of a layer that stored
  the codes \<open>qs\<close>, for one group. Weights are exact rationals here; the rounding of the
  spec is applied to integers only, where every rounding mode agrees.
\<close>

definition quantize_value :: "nat \<Rightarrow> rat \<Rightarrow> int \<Rightarrow> rat \<Rightarrow> int" where
  "quantize_value nbits scale zero w =
     max 0 (min (2 ^ nbits - 1) (round (w / scale) + zero))"

definition dequantize_value :: "rat \<Rightarrow> int \<Rightarrow> int \<Rightarrow> rat" where
  "dequantize_value scale zero q = scale * of_int (q - zero)"

definition repack_codes :: "nat \<Rightarrow> rat \<Rightarrow> int \<Rightarrow> int list \<Rightarrow> int list" where
  "repack_codes nbits scale zero qs =
     map (\<lambda>q. quantize_value nbits scale zero (dequantize_value scale zero q)) qs"

subsection \<open>Notions used in the proofs\<close>

text \<open>
  A computation is steady when it leaves the stage tag alone and only appends events under
  that tag. \<open>appends P c\<close> says that \<open>c\<close> only appends events to the trace and that what it
  appends satisfies \<open>P\<close>; \<open>post c Q\<close> says that every normal result of \<open>c\<close> satisfies \<open>Q\<close>.
\<close>

definition steady :: "'a comp \<Rightarrow> bool" where
  "steady c = (\<forall>s. stage (snd (c s)) = stage s \<and>
      (\<exists>ev. trace (snd (c s)) = trace s @ map (Pair (stage s)) ev))"

definition appends :: "((stage \<times> event) list \<Rightarrow> bool) \<Rightarrow> 'a comp \<Rightarrow> bool" where
  "appends P c = (\<forall>s. \<exists>ev. trace (snd (c s)) = trace s @ ev \<and> P ev)"

definition post :: "'a comp \<Rightarrow> ('a \<Rightarrow> bool) \<Rightarrow> bool" where
  "post c Q = (\<forall>s x. fst (c s) = Inr x \<longrightarrow> Q x)"

definition ranked :: "nat \<Rightarrow> nat \<Rightarrow> (stage \<times> event) list \<Rightarrow> bool" where
  "ranked lo hi ev = (sorted (map (block_rank \<circ> fst) ev) \<and>
     (\<forall>x \<in> set ev. lo \<le> block_rank (fst x) \<and> block_rank (fst x) \<le> hi))"

text \<open>
  \<open>makes P c\<close> says that \<open>c\<close> is steady and that every call it records satisfies \<open>P\<close>; a
  list of tagged events is well tagged when every event carries the tag of a block in
  which the source makes that call.
\<close>

definition makes :: "(event \<Rightarrow> bool) \<Rightarrow> 'a comp \<Rightarrow> bool" where
  "makes P c = (\<forall>s. stage (snd (c s)) = stage s \<and>
      (\<exists>ev. trace (snd (c s)) = trace s @ map (Pair (stage s)) ev \<and> (\<forall>e \<in> set ev. P e)))"

definition well_tagged :: "(stage \<times> event) list \<Rightarrow> bool" where
  "well_tagged ev = (\<forall>x \<in> set ev. fst x \<in> set (blocks_of (snd x)))"

subsection \<open>A toy configuration\<close>

text \<open>
  A model of two linear layers around an activation, a quantizer that returns one
  six-tuple per linear layer, and a checkpoint of the same model packed in the mode
  \<^verbatim>\<open>GEMM\<close>. The concrete instances below run on it.
\<close>

definition toy_layer :: "ltype \<Rightarrow> string \<Rightarrow> layer" where
  "toy_layer t w = \<lparr>ltype = t, bits = PNone, group_size = PNone, infeatures = PInt 8,
     outfeatures = PInt 4, has_bias = False, weight = PObj w\<rparr>"

definition toy_graph :: graph where
  "toy_graph = [(''fc1'', toy_layer Linear ''w1''), (''act'', toy_layer (OtherLayer ''GELU'') []),
     (''fc2'', toy_layer Linear ''w2'')]"

definition toy_packed_graph :: graph where
  "toy_packed_graph = [(''fc1'', toy_layer (QuantLinear ''GEMM'') ''b1''),
     (''act'', toy_layer (OtherLayer ''GELU'') []),
     (''fc2'', toy_layer (QuantLinear ''GEMM'') ''b2'')]"

definition toy_quantizers :: quantizers where
  "toy_quantizers =
     [(''fc1'', PTuple [PObj ''q1'', PObj ''s1'', PObj ''z1'', PObj ''g1'', PInt 4, PInt 128]),
      (''fc2'', PTuple [PObj ''q2'', PObj ''s2'', PObj ''z2'', PObj ''g2'', PInt 4, PInt 128])]"

definition toy_env :: env where
  "toy_env = \<lparr>py_int = (\<lambda>s. if s = ''1'' then Some 1 else None),
     from_quantized = (\<lambda>p. toy_packed_graph),
     from_pretrained = (\<lambda>p. toy_graph),
     get_sample_datas = [PTuple [PObj ''ids'', PNone]],
     json_load = (\<lambda>p. []),
     quantize = (\<lambda>g. (g, toy_quantizers)),
     select_quant_linear = (\<lambda>m b. QuantLinear m),
     has_awq_inference_engine = False,
     DEV = ''cuda:0'',
     exporter_export_onnx = (\<lambda>p. p @ ''/model.onnx''),
     num_hidden_layers = 2,
     max_abs_err = Finite (1 / 2)\<rparr>"

definition toy_args :: args where
  "toy_args = \<lparr>layers_dist = [], load = Str [], tokenizer = [], model = ''llama'', wbits = 4,
     groupsize = 128, nearest = False, mix_qlayer_conf = ConfFile [], pack_mode = ''GEMM'',
     method_name = ''gptq'', quant_directory = None, observe = False, save = [], eval = False,
     export_onnx_path = [], use_plugin = False, save_safetensors = []\<rparr>"

text \<open>
  The configuration that evaluates and exports the packed checkpoint, the state after
  LOAD of that checkpoint, inside EVAL, and the state after CALIBRATE of the fresh model,
  inside PACK.
\<close>

definition toy_eval_export :: args where
  "toy_eval_export = toy_args\<lparr>load := Str ''ckpt'', eval := True, export_onnx_path := ''out''\<rparr>"

definition toy_loaded :: state where
  "toy_loaded = init\<lparr>self_tokenizer := Some ''ckpt'', module_graph := toy_packed_graph,
     stage := EVAL\<rparr>"

definition toy_calibrated :: state where
  "toy_calibrated = init\<lparr>self_tokenizer := Some ''llama'', module_graph := toy_graph,
     quantizers_dict := toy_quantizers, stage := PACK\<rparr>"

text \<open>
  The configuration that enables every optional block of \<^verbatim>\<open>run\<close> on the fresh model: the
  quantization table, the save directory, evaluation, export, the chat plugin and the
  safetensors file.
\<close>

definition toy_all_blocks :: args where
  "toy_all_blocks = toy_args\<lparr>quant_directory := Some ''qd'', save := ''out'', eval := True,
     export_onnx_path := ''onnx'', use_plugin := True, save_safetensors := ''out.st''\<rparr>"

text \<open>
  A mixed-precision quantization: the quantizer returns the first layer at 8 bits in
  groups of 64 and the second at the configured 4 bits in groups of 128, as it does when
  \<^verbatim>\<open>args.mix_qlayer_conf\<close> gives a layer a width of its own.
\<close>

definition toy_mixed_quantizers :: quantizers where
  "toy_mixed_quantizers =
     [(''fc1'', PTuple [PObj ''q1'', PObj ''s1'', PObj ''z1'', PObj ''g1'', PInt 8, PInt 64]),
      (''fc2'', PTuple [PObj ''q2'', PObj ''s2'', PObj ''z2'', PObj ''g2'', PInt 4, PInt 128])]"

definition toy_mixed_env :: env where
  "toy_mixed_env = toy_env\<lparr>quantize := (\<lambda>g. (g, toy_mixed_quantizers))\<rparr>"

section \<open>Properties\<close>

subsection \<open>The statements before LOAD\<close>

lemma ints_of_error: "ints_of env xs = Inl e \<Longrightarrow> \<exists>m. e = ValueError m"
  by (induction xs arbitrary: e) (auto split: option.splits sum.splits)

lemma gpu_dist_of_error: "gpu_dist_of env a = Inl e \<Longrightarrow> \<exists>m. e = ValueError m"
  by (auto simp: gpu_dist_of_def dest: ints_of_error split: if_splits)

lemma load_normalise_load [simp]: "as_posix (load (normalise_load a)) = as_posix (load a)"
  by (cases "load a") (simp_all add: normalise_load_def)

lemma load_default_tokenizer [simp]: "load (default_tokenizer a) = load a"
  by (simp add: default_tokenizer_def)

lemma model_normalise_load [simp]: "model (normalise_load a) = model a"
  by (cases "load a") (simp_all add: normalise_load_def)

lemma model_default_tokenizer [simp]: "model (default_tokenizer a) = model a"
  by (simp add: default_tokenizer_def)

lemma other_fields_normalise [simp]:
  "wbits (normalise_load a) = wbits a" "nearest (normalise_load a) = nearest a"
  "quant_directory (normalise_load a) = quant_directory a"
  "observe (normalise_load a) = observe a" "save (normalise_load a) = save a"
  "save_safetensors (normalise_load a) = save_safetensors a"
  "eval (normalise_load a) = eval a" "use_plugin (normalise_load a) = use_plugin a"
  "export_onnx_path (normalise_load a) = export_onnx_path a"
  "pack_mode (normalise_load a) = pack_mode a"
  by (cases "load a"; simp add: normalise_load_def)+

lemma other_fields_default [simp]:
  "wbits (default_tokenizer a) = wbits a" "nearest (default_tokenizer a) = nearest a"
  "quant_directory (default_tokenizer a) = quant_directory a"
  "observe (default_tokenizer a) = observe a" "save (default_tokenizer a) = save a"
  "save_safetensors (default_tokenizer a) = save_safetensors a"
  "eval (default_tokenizer a) = eval a" "use_plugin (default_tokenizer a) = use_plugin a"
  "export_onnx_path (default_tokenizer a) = export_onnx_path a"
  "pack_mode (default_tokenizer a) = pack_mode a"
  by (simp_all add: default_tokenizer_def)

lemma conf_fields [simp]:
  "mix_qlayer_conf (normalise_load a) = mix_qlayer_conf a"
  "mix_qlayer_conf (default_tokenizer a) = mix_qlayer_conf a"
  by (cases "load a"; simp add: normalise_load_def default_tokenizer_def)+

lemmas comp_defs = bindE_def seqE_def lift_def ret_def raise_def emit_def whenE_def in_stage_def
  set_graph_def get_graph_def set_quantizers_def get_quantizers_def set_tokenizer_def

lemma subscript_0_of_1: "subscript v 1 = Inr m \<Longrightarrow> \<exists>x. subscript v 0 = Inr x"
  by (cases v) (auto split: if_splits)

lemma unpack6_Inr:
  "unpack6 v = Inr (q, sc, z, g) \<Longrightarrow> \<exists>w gs. v = PTuple [q, sc, z, g, w, gs]"
  by (erule unpack6.elims) auto

subsection \<open>Steady computations\<close>

lemma steady_ret: "steady (ret x)"
  by (simp add: steady_def ret_def)

lemma steady_raise: "steady (raise e)"
  by (simp add: steady_def raise_def)

lemma steady_lift: "steady (lift r)"
  by (simp add: steady_def lift_def)

lemma steady_emit: "steady (emit e)"
  unfolding steady_def emit_def
  by (intro allI conjI exI[of _ "[e]"]) simp_all

lemma steady_get_graph: "steady get_graph"
  by (simp add: steady_def get_graph_def)

lemma steady_set_graph: "steady (set_graph g)"
  by (simp add: steady_def set_graph_def)

lemma steady_get_quantizers: "steady get_quantizers"
  by (simp add: steady_def get_quantizers_def)

lemma steady_set_quantizers: "steady (set_quantizers q)"
  by (simp add: steady_def set_quantizers_def)

lemma steady_set_tokenizer: "steady (set_tokenizer t)"
  by (simp add: steady_def set_tokenizer_def)

lemma steady_bindE:
  assumes "steady c" and "\<And>x. steady (f x)"
  shows "steady (bindE c f)"
proof -
  have "stage (snd (bindE c f s)) = stage s \<and>
        (\<exists>ev. trace (snd (bindE c f s)) = trace s @ map (Pair (stage s)) ev)" for s
  proof (cases "c s")
    case (Pair r s1)
    from assms(1) Pair obtain ev1 where s1: "stage s1 = stage s"
      "trace s1 = trace s @ map (Pair (stage s)) ev1"
      unfolding steady_def by (metis snd_conv)
    show ?thesis
    proof (cases r)
      case (Inl e)
      with Pair s1 show ?thesis by (auto simp: bindE_def)
    next
      case (Inr x)
      from assms(2)[of x] obtain ev2 where s2: "stage (snd (f x s1)) = stage s1"
        "trace (snd (f x s1)) = trace s1 @ map (Pair (stage s1)) ev2"
        unfolding steady_def by blast
      have "trace (snd (f x s1)) = trace s @ map (Pair (stage s)) (ev1 @ ev2)"
        using s1 s2 by simp
      moreover have "stage (snd (f x s1)) = stage s"
        using s1 s2 by simp
      moreover have "bindE c f s = f x s1"
        using Pair Inr by (simp add: bindE_def)
      ultimately show ?thesis by metis
    qed
  qed
  then show ?thesis unfolding steady_def by blast
qed

lemma steady_seqE: "steady c \<Longrightarrow> steady d \<Longrightarrow> steady (seqE c d)"
  by (simp add: seqE_def steady_bindE)

lemma steady_whenE: "steady c \<Longrightarrow> steady (whenE b c)"
  by (simp add: whenE_def steady_ret)

lemmas steady_intros = steady_ret steady_raise steady_lift steady_emit steady_get_graph
  steady_set_graph steady_get_quantizers steady_set_quantizers steady_set_tokenizer
  steady_bindE steady_seqE steady_whenE

lemma steady_repack_loop: "steady (repack_loop t b g qs)"
  by (induction qs) (auto simp: Let_def intro!: steady_intros)

lemma steady_repack_to_new_mode: "steady (repack_to_new_mode env a m)"
  unfolding repack_to_new_mode_def Let_def
  by (intro steady_intros steady_repack_loop)

lemma steady_pack_loop: "steady (pack_loop att names)"
  by (induction names arbitrary: att) (auto simp: Let_def split: prod.splits intro!: steady_intros)

lemma steady_pack_model: "steady (pack_model env a)"
  unfolding pack_model_def Let_def
  by (intro steady_intros steady_pack_loop)

lemma steady_tokenizer_save_pretrained: "steady (tokenizer_save_pretrained p)"
  unfolding steady_def tokenizer_save_pretrained_def
  using steady_emit[unfolded steady_def] steady_raise[unfolded steady_def]
  by (auto split: option.splits)

lemma steady_eval_model: "steady (eval_model env dev a)"
proof -
  have "steady (\<lambda>s. case self_tokenizer s of None \<Rightarrow> raise TypeError s
                 | Some t \<Rightarrow> emit (Tokenize ''compared with awq, gptq is'') s)"
    unfolding steady_def
    using steady_emit[unfolded steady_def] steady_raise[unfolded steady_def]
    by (auto split: option.splits)
  then show ?thesis
    unfolding eval_model_def
    by (intro steady_intros steady_repack_to_new_mode)
qed

lemma steady_export_onnx: "steady (export_onnx env p si wp a)"
  unfolding export_onnx_def Let_def
  by (intro steady_intros steady_repack_to_new_mode steady_tokenizer_save_pretrained)

lemma steady_load_block: "steady (load_block env a)"
  unfolding load_block_def load_quant_def get_torch_model_def
  by (auto intro!: steady_intros)

lemma steady_sample_block: "steady (sample_block env)"
  unfolding sample_block_def by (intro steady_intros)

lemma steady_calibrate_block: "steady (calibrate_block env a)"
  unfolding calibrate_block_def quant_by_sequential_def
  by (intro steady_intros) (auto split: mix_conf.splits intro!: steady_intros)

lemma steady_pack_block: "steady (pack_block env a)"
  unfolding pack_block_def
  by (intro steady_intros steady_pack_model)

lemma steady_quant_table_block: "steady (quant_table_block a l)"
  unfolding quant_table_block_def
  by (auto split: option.splits intro!: steady_intros)

lemma steady_save_body:
  "steady (seqE (emit (ModelSavePretrained (save a)))
      (seqE (tokenizer_save_pretrained (save a))
      (seqE (emit (OpenW (save a @ ''/quant.op.json'')))
      (bindE (case l of None \<Rightarrow> raise (UnboundLocalError ''quant_info'')
              | Some r \<Rightarrow> ret (fst r)) (\<lambda>quant_info.
       seqE (emit (WriteF (save a @ ''/quant.op.json'') (JsonQuantInfo quant_info)))
      (seqE (emit (OpenW (save a @ ''/quant_config.json'')))
      (bindE (case l of None \<Rightarrow> raise (UnboundLocalError ''quant_config'')
              | Some r \<Rightarrow> ret (snd r)) (\<lambda>quant_config.
       emit (WriteF (save a @ ''/quant_config.json'') (JsonQuantConfig quant_config))))))))))"
  by (intro steady_intros steady_tokenizer_save_pretrained)
     (auto split: option.splits intro!: steady_intros)

lemma steady_export_body:
  "steady (case idl of [] \<Rightarrow> raise IndexError
        | sample_inputs # rest \<Rightarrow> export_onnx env p sample_inputs True a)"
  by (auto split: list.splits intro!: steady_intros steady_export_onnx)

subsection \<open>What a computation appends to the trace\<close>

lemma appends_ret: "P [] \<Longrightarrow> appends P (ret x)"
  by (simp add: appends_def ret_def)

lemma appends_raise: "P [] \<Longrightarrow> appends P (raise e)"
  by (simp add: appends_def raise_def)

lemma appends_lift: "P [] \<Longrightarrow> appends P (lift r)"
  by (simp add: appends_def lift_def)

lemma appends_in_stage:
  assumes "steady c" and "\<And>ev. P (map (Pair k) ev)"
  shows "appends P (in_stage k c)"
proof -
  have "\<exists>ev. trace (snd (in_stage k c s)) = trace s @ ev \<and> P ev" for s
  proof -
    from assms(1) obtain ev where
      "trace (snd (c (s\<lparr>stage := k\<rparr>))) = trace (s\<lparr>stage := k\<rparr>) @ map (Pair (stage (s\<lparr>stage := k\<rparr>))) ev"
      unfolding steady_def by blast
    then have "trace (snd (in_stage k c s)) = trace s @ map (Pair k) ev"
      by (simp add: in_stage_def)
    with assms(2) show ?thesis by blast
  qed
  then show ?thesis by (simp add: appends_def)
qed

lemma appends_in_stage_ret: "P [] \<Longrightarrow> appends P (in_stage k (ret x))"
  by (simp add: appends_def in_stage_def ret_def)

lemma appends_bindE:
  assumes c: "appends P c" and q: "post c Q"
    and f: "\<And>x. Q x \<Longrightarrow> appends P' (f x)"
    and both: "\<And>e1 e2. P e1 \<Longrightarrow> P' e2 \<Longrightarrow> R (e1 @ e2)"
    and one: "\<And>e1. P e1 \<Longrightarrow> R e1"
  shows "appends R (bindE c f)"
proof -
  have "\<exists>ev. trace (snd (bindE c f s)) = trace s @ ev \<and> R ev" for s
  proof (cases "c s")
    case (Pair r s1)
    from c Pair obtain e1 where e1: "trace s1 = trace s @ e1" "P e1"
      unfolding appends_def by (metis snd_conv)
    show ?thesis
    proof (cases r)
      case (Inl e)
      with Pair have "bindE c f s = (Inl e, s1)" by (simp add: bindE_def)
      with e1 one show ?thesis by auto
    next
      case (Inr x)
      with Pair q have "Q x" unfolding post_def by (metis fst_conv)
      from f[OF this] obtain e2 where e2: "trace (snd (f x s1)) = trace s1 @ e2" "P' e2"
        unfolding appends_def by blast
      from Pair Inr have "bindE c f s = f x s1" by (simp add: bindE_def)
      with e1 e2 both[OF e1(2) e2(2)] show ?thesis by auto
    qed
  qed
  then show ?thesis by (simp add: appends_def)
qed

lemma post_True: "post c (\<lambda>x. True)"
  by (simp add: post_def)

lemma appends_seqE:
  assumes "appends P c" and "appends P' d"
    and "\<And>e1 e2. P e1 \<Longrightarrow> P' e2 \<Longrightarrow> R (e1 @ e2)" and "\<And>e1. P e1 \<Longrightarrow> R e1"
  shows "appends R (seqE c d)"
  unfolding seqE_def
  by (rule appends_bindE[where P = P and P' = P' and Q = "\<lambda>x. True"])
     (use assms in \<open>auto simp: post_True\<close>)

lemma tags_seqE:
  assumes "appends (\<lambda>ev. fst ` set ev \<subseteq> T) c" and "appends (\<lambda>ev. fst ` set ev \<subseteq> T) d"
  shows "appends (\<lambda>ev. fst ` set ev \<subseteq> T) (seqE c d)"
  by (rule appends_seqE[OF assms]) auto

lemma tags_in_stage:
  assumes "steady c" and "k \<in> T"
  shows "appends (\<lambda>ev. fst ` set ev \<subseteq> T) (in_stage k c)"
  by (rule appends_in_stage[OF assms(1)]) (use assms(2) in auto)

lemma tags_in_stage_when:
  assumes "steady c" and "k \<in> T \<or> \<not> b"
  shows "appends (\<lambda>ev. fst ` set ev \<subseteq> T) (in_stage k (whenE b c))"
proof (cases b)
  case True
  with assms show ?thesis by (simp add: whenE_def tags_in_stage)
next
  case False
  then show ?thesis by (simp add: whenE_def appends_in_stage_ret)
qed

subsection \<open>The tags of the blocks of \<^verbatim>\<open>run\<close>\<close>

lemma calibrate_block_result:
  "fst (calibrate_block env a s) = Inr a' \<Longrightarrow> \<exists>m. a' = a\<lparr>mix_qlayer_conf := m\<rparr>"
  unfolding calibrate_block_def quant_by_sequential_def comp_defs
  by (auto split: if_splits mix_conf.splits sum.splits prod.splits)

lemma post_calibrate_pack_block:
  "post (calibrate_pack_block env a) (\<lambda>(a', l). \<exists>m. a' = a\<lparr>mix_qlayer_conf := m\<rparr>)"
proof -
  have "\<exists>m. a' = a\<lparr>mix_qlayer_conf := m\<rparr>"
    if "fst (calibrate_pack_block env a s) = Inr (a', l)" for s a' l
  proof (cases "as_posix (load a) = [] \<and> wbits a < 16 \<and> \<not> nearest a")
    case True
    obtain r1 s1 where c: "calibrate_block env a (s\<lparr>stage := CALIBRATE\<rparr>) = (r1, s1)"
      by (cases "calibrate_block env a (s\<lparr>stage := CALIBRATE\<rparr>)")
    with that True have "r1 = Inr a'"
      by (auto simp: calibrate_pack_block_def bindE_def in_stage_def ret_def
          split: sum.splits prod.splits)
    with c have "fst (calibrate_block env a (s\<lparr>stage := CALIBRATE\<rparr>)) = Inr a'" by simp
    then show ?thesis by (rule calibrate_block_result)
  next
    case False
    with that have "a' = a" by (auto simp: calibrate_pack_block_def ret_def)
    then have "a' = a\<lparr>mix_qlayer_conf := mix_qlayer_conf a\<rparr>" by simp
    then show ?thesis by blast
  qed
  then show ?thesis unfolding post_def by auto
qed

lemma tags_calibrate_pack_block:
  assumes "(CALIBRATE \<in> T \<and> PACK \<in> T) \<or> \<not> (as_posix (load a) = [] \<and> wbits a < 16 \<and> \<not> nearest a)"
  shows "appends (\<lambda>ev. fst ` set ev \<subseteq> T) (calibrate_pack_block env a)"
proof (cases "as_posix (load a) = [] \<and> wbits a < 16 \<and> \<not> nearest a")
  case True
  with assms have T: "CALIBRATE \<in> T" "PACK \<in> T" by auto
  have "appends (\<lambda>ev. fst ` set ev \<subseteq> T)
          (bindE (in_stage CALIBRATE (calibrate_block env a)) (\<lambda>args'.
           bindE (in_stage PACK (pack_block env args')) (\<lambda>r. ret (args', Some r))))"
    apply (rule appends_bindE[where P = "\<lambda>ev. fst ` set ev \<subseteq> T" and P' = "\<lambda>ev. fst ` set ev \<subseteq> T"
          and Q = "\<lambda>x. True"])
        apply (rule tags_in_stage[OF steady_calibrate_block T(1)])
       apply (rule post_True)
      apply (rule appends_bindE[where P = "\<lambda>ev. fst ` set ev \<subseteq> T" and P' = "\<lambda>ev. fst ` set ev \<subseteq> T"
          and Q = "\<lambda>x. True"])
          apply (rule tags_in_stage[OF steady_pack_block T(2)])
         apply (rule post_True)
        apply (rule appends_ret)
        apply auto
    done
  with True show ?thesis by (simp add: calibrate_pack_block_def)
next
  case False
  then have "calibrate_pack_block env a = ret (a, None)"
    by (auto simp: calibrate_pack_block_def)
  then show ?thesis by (simp add: appends_ret)
qed

lemma run_stages_tags:
  assumes T: "QUANT_TABLE \<in> T" "EVAL \<in> T" "EXPORT \<in> T" "SERVE \<in> T"
    and cp: "(CALIBRATE \<in> T \<and> PACK \<in> T) \<or> \<not> (as_posix (load a) = [] \<and> wbits a < 16 \<and> \<not> nearest a)"
    and sv: "SAVE \<in> T \<or> observe a \<or> save a = []"
    and st: "SAVE_SAFETENSORS \<in> T \<or> observe a \<or> save_safetensors a = []"
  shows "appends (\<lambda>ev. fst ` set ev \<subseteq> T) (run_stages env a idl)"
proof -
  have rest: "appends (\<lambda>ev. fst ` set ev \<subseteq> T)
     (seqE (in_stage QUANT_TABLE (quant_table_block a' l))
     (seqE (in_stage SAVE (save_block a' l))
     (seqE (in_stage EVAL (eval_block env a'))
     (seqE (in_stage EXPORT (export_block env a' idl))
     (seqE (in_stage SERVE (serve_block a'))
           (in_stage SAVE_SAFETENSORS (safetensors_block a')))))))"
    if "\<exists>m. a' = a\<lparr>mix_qlayer_conf := m\<rparr>" for a' l
  proof -
    from that sv st have sv': "SAVE \<in> T \<or> \<not> (\<not> observe a' \<and> save a' \<noteq> [])"
      and st': "SAVE_SAFETENSORS \<in> T \<or> \<not> (\<not> observe a' \<and> save_safetensors a' \<noteq> [])"
      by auto
    show ?thesis
      unfolding save_block_def eval_block_def export_block_def serve_block_def
        safetensors_block_def
      by (intro tags_seqE tags_in_stage_when tags_in_stage steady_quant_table_block
          steady_save_body steady_eval_model steady_export_body steady_emit T sv' st' disjI1)
  qed
  show ?thesis
    unfolding run_stages_def
    apply (rule appends_bindE[where P = "\<lambda>ev. fst ` set ev \<subseteq> T" and P' = "\<lambda>ev. fst ` set ev \<subseteq> T"
          and Q = "\<lambda>(a', l). \<exists>m. a' = a\<lparr>mix_qlayer_conf := m\<rparr>"])
        apply (rule tags_calibrate_pack_block[OF cp])
       apply (rule post_calibrate_pack_block)
    subgoal for x by (cases x) (use rest in simp)
     apply auto
    done
qed

lemma run_tags:
  assumes T: "LOAD \<in> T" "SAMPLE \<in> T" "QUANT_TABLE \<in> T" "EVAL \<in> T" "EXPORT \<in> T" "SERVE \<in> T"
    and cp: "(CALIBRATE \<in> T \<and> PACK \<in> T) \<or> \<not> (as_posix (load a) = [] \<and> wbits a < 16 \<and> \<not> nearest a)"
    and sv: "SAVE \<in> T \<or> observe a \<or> save a = []"
    and st: "SAVE_SAFETENSORS \<in> T \<or> observe a \<or> save_safetensors a = []"
  shows "appends (\<lambda>ev. fst ` set ev \<subseteq> T) (run env a)"
proof -
  let ?a = "default_tokenizer (normalise_load a)"
  have stages: "appends (\<lambda>ev. fst ` set ev \<subseteq> T) (run_stages env ?a idl)" for idl
    by (rule run_stages_tags) (use T cp sv st in simp_all)
  have "appends (\<lambda>ev. fst ` set ev \<subseteq> T)
          (seqE (in_stage LOAD (load_block env ?a))
          (bindE (in_stage SAMPLE (sample_block env)) (\<lambda>idl. run_stages env ?a idl)))"
    apply (rule tags_seqE)
     apply (rule tags_in_stage[OF steady_load_block T(1)])
    apply (rule appends_bindE[where P = "\<lambda>ev. fst ` set ev \<subseteq> T" and P' = "\<lambda>ev. fst ` set ev \<subseteq> T"
          and Q = "\<lambda>x. True"])
        apply (rule tags_in_stage[OF steady_sample_block T(2)])
       apply (rule post_True)
      apply (rule stages)
     apply auto
    done
  then show ?thesis
    unfolding run_def Let_def
    by (intro appends_bindE[where P = "\<lambda>ev. ev = []" and P' = "\<lambda>ev. fst ` set ev \<subseteq> T"
          and Q = "\<lambda>x. True"] appends_lift post_True) auto
qed

lemma run_new_tags:
  assumes "appends (\<lambda>ev. fst ` set ev \<subseteq> T) (run env a)"
  shows "fst ` set (trace (snd (run env a init))) \<subseteq> T"
proof -
  from assms obtain ev where "trace (snd (run env a init)) = trace init @ ev" "fst ` set ev \<subseteq> T"
    unfolding appends_def by blast
  then show ?thesis by (simp add: init_def)
qed

subsection \<open>LOAD without a source\<close>

text \<open>
  Claim C6. A configuration that names neither a pretrained model (\<^verbatim>\<open>args.model\<close> is
  empty) nor a quantized checkpoint (\<^verbatim>\<open>args.load\<close> is empty) makes \<^verbatim>\<open>run\<close> fail with a
  \<^verbatim>\<open>ValueError\<close>, the configuration error of this file, and nothing has happened by then:
  no event is recorded, no model and no tokenizer is loaded. When \<^verbatim>\<open>args.layers_dist\<close>
  parses, the error is the one raised at LOAD, with the message of line 158.
\<close>

theorem run_without_source_fails:
  assumes "as_posix (load a) = []" and "model a = []"
  shows "\<exists>msg. fst (run env a s) = Inl (ValueError msg)
           \<and> ((\<exists>d. gpu_dist_of env a = Inr d) \<longrightarrow> msg = either_msg)
           \<and> trace (snd (run env a s)) = trace s
           \<and> module_graph (snd (run env a s)) = module_graph s
           \<and> self_tokenizer (snd (run env a s)) = self_tokenizer s"
proof (cases "gpu_dist_of env a")
  case (Inl e)
  then obtain m where "e = ValueError m"
    using gpu_dist_of_error by blast
  with Inl show ?thesis
    by (simp add: run_def bindE_def lift_def)
next
  case (Inr d)
  with assms show ?thesis
    by (simp add: run_def bindE_def seqE_def lift_def Let_def in_stage_def load_block_def
        raise_def)
qed

theorem run_without_source_fails_witness:
  "as_posix (load (toy_args\<lparr>model := []\<rparr>)) = [] \<and> model (toy_args\<lparr>model := []\<rparr>) = []
   \<and> fst (run toy_env (toy_args\<lparr>model := []\<rparr>) init) = Inl (ValueError either_msg)
   \<and> trace (snd (run toy_env (toy_args\<lparr>model := []\<rparr>) init)) = []"
proof -
  have a: "as_posix (load (toy_args\<lparr>model := []\<rparr>)) = []" "model (toy_args\<lparr>model := []\<rparr>) = []"
    by (simp_all add: toy_args_def)
  have g: "gpu_dist_of toy_env (toy_args\<lparr>model := []\<rparr>) = Inr []"
    by (simp add: gpu_dist_of_def toy_args_def)
  from run_without_source_fails [OF a, of toy_env init] g a show ?thesis
    by (auto simp: init_def)
qed

subsection \<open>LOAD with both sources\<close>

text \<open>
  The spec calls the two sources mutually exclusive and has \<^verbatim>\<open>run\<close> fail when both are
  given. The code tests \<^verbatim>\<open>args.load\<close> first (line 151) and never looks at \<^verbatim>\<open>args.model\<close>
  when it is set: on the toy configuration with both set, \<^verbatim>\<open>run\<close> returns normally.
\<close>

theorem both_sources_counterexample:
  "as_posix (load (toy_args\<lparr>load := Str ''ckpt''\<rparr>)) \<noteq> []
   \<and> model (toy_args\<lparr>load := Str ''ckpt''\<rparr>) \<noteq> []
   \<and> fst (run toy_env (toy_args\<lparr>load := Str ''ckpt''\<rparr>) init) = Inr ()"
  by code_simp

text \<open>
  Claim C7, as amended. For every configuration that names both a quantized checkpoint and
  a pretrained model (and whose \<^verbatim>\<open>args.layers_dist\<close> parses), \<^verbatim>\<open>run\<close> does not fail at LOAD:
  the checkpoint takes precedence. The trace starts with the tokenizer and the model being
  loaded from \<^verbatim>\<open>args.load\<close>, goes on to fetch the samples, and no later event belongs to
  LOAD, so the pretrained model is never loaded.
\<close>

theorem load_takes_precedence:
  assumes gpu: "gpu_dist_of env a = Inr d"
    and both: "as_posix (load a) \<noteq> []" "model a \<noteq> []"
  shows "\<exists>rest. trace (snd (run env a init)) =
           [(LOAD, TokenizerFromPretrained (as_posix (load a))),
            (LOAD, FromQuantized (as_posix (load a))), (LOAD, ModelEval),
            (SAMPLE, GetSampleDatas)] @ rest
         \<and> LOAD \<notin> fst ` set rest"
proof -
  let ?a = "default_tokenizer (normalise_load a)"
  let ?s = "\<lparr>self_tokenizer = Some (as_posix (load a)),
             module_graph = from_quantized env (as_posix (load a)),
             quantizers_dict = [], stage = SAMPLE,
             trace = [(LOAD, TokenizerFromPretrained (as_posix (load a))),
               (LOAD, FromQuantized (as_posix (load a))), (LOAD, ModelEval),
               (SAMPLE, GetSampleDatas)]\<rparr>"
  have run: "run env a init = run_stages env ?a (get_sample_datas env) ?s"
    using gpu both
    by (simp add: run_def Let_def load_block_def load_quant_def sample_block_def comp_defs
        init_def)
  have "appends (\<lambda>ev. fst ` set ev \<subseteq> UNIV - {LOAD}) (run_stages env ?a (get_sample_datas env))"
    by (rule run_stages_tags) simp_all
  then obtain ev where "trace (snd (run_stages env ?a (get_sample_datas env) ?s)) = trace ?s @ ev"
    "fst ` set ev \<subseteq> UNIV - {LOAD}"
    unfolding appends_def by blast
  with run show ?thesis by auto
qed

theorem load_takes_precedence_witness:
  "gpu_dist_of toy_env (toy_args\<lparr>load := Str ''ckpt''\<rparr>) = Inr []
   \<and> as_posix (load (toy_args\<lparr>load := Str ''ckpt''\<rparr>)) \<noteq> []
   \<and> model (toy_args\<lparr>load := Str ''ckpt''\<rparr>) \<noteq> []
   \<and> take 4 (trace (snd (run toy_env (toy_args\<lparr>load := Str ''ckpt''\<rparr>) init))) =
       [(LOAD, TokenizerFromPretrained ''ckpt''), (LOAD, FromQuantized ''ckpt''),
        (LOAD, ModelEval), (SAMPLE, GetSampleDatas)]"
proof -
  have g: "gpu_dist_of toy_env (toy_args\<lparr>load := Str ''ckpt''\<rparr>) = Inr []"
    by (simp add: gpu_dist_of_def toy_args_def)
  have b: "as_posix (load (toy_args\<lparr>load := Str ''ckpt''\<rparr>)) \<noteq> []"
    "model (toy_args\<lparr>load := Str ''ckpt''\<rparr>) \<noteq> []"
    by (simp_all add: toy_args_def)
  from load_takes_precedence [OF g b] g b show ?thesis
    by auto
qed

subsection \<open>When CALIBRATE and PACK run\<close>

text \<open>
  The spec has PACK still run, on trivial parameters, when only nearest rounding is
  configured. Line 163 guards calibration and packing together: on the toy configuration
  with \<^verbatim>\<open>args.nearest\<close> set, \<^verbatim>\<open>run\<close> returns normally and no event belongs to PACK (the first
  statement of \<^verbatim>\<open>pack_model\<close> would record one).
\<close>

theorem nearest_skips_pack_counterexample:
  "nearest (toy_args\<lparr>nearest := True\<rparr>)
   \<and> fst (run toy_env (toy_args\<lparr>nearest := True\<rparr>) init) = Inr ()
   \<and> PACK \<notin> fst ` set (trace (snd (run toy_env (toy_args\<lparr>nearest := True\<rparr>) init)))"
  by code_simp

text \<open>
  Claim C2, as amended. CALIBRATE and PACK run only when the model is loaded fresh
  (\<^verbatim>\<open>args.load\<close> is empty), the bit width is below 16 and nearest rounding is not
  configured. In every other configuration, the one with nearest rounding included, both
  are skipped: no event belongs to CALIBRATE and none to PACK.
\<close>

theorem calibrate_and_pack_only_when:
  assumes "as_posix (load a) \<noteq> [] \<or> 16 \<le> wbits a \<or> nearest a"
  shows "CALIBRATE \<notin> fst ` set (trace (snd (run env a init)))
       \<and> PACK \<notin> fst ` set (trace (snd (run env a init)))"
proof -
  have "appends (\<lambda>ev. fst ` set ev \<subseteq> UNIV - {CALIBRATE, PACK}) (run env a)"
    by (rule run_tags) (use assms in auto)
  from run_new_tags[OF this] show ?thesis by auto
qed

theorem calibrate_and_pack_only_when_witness:
  "nearest (toy_args\<lparr>nearest := True\<rparr>)
   \<and> CALIBRATE \<notin> fst ` set (trace (snd (run toy_env (toy_args\<lparr>nearest := True\<rparr>) init)))
   \<and> PACK \<notin> fst ` set (trace (snd (run toy_env (toy_args\<lparr>nearest := True\<rparr>) init)))"
  using calibrate_and_pack_only_when [of "toy_args\<lparr>nearest := True\<rparr>" toy_env]
  by (simp add: toy_args_def)

subsection \<open>The observe flag\<close>

text \<open>
  The spec has the observe flag suppress every write, the quantization table included.
  Line 173 tests only \<^verbatim>\<open>args.quant_directory\<close>: on the toy configuration with the flag and
  the directory set, the table is handed to \<^verbatim>\<open>export_quant_table\<close>.
\<close>

theorem observe_quant_table_counterexample:
  "observe (toy_args\<lparr>observe := True, quant_directory := Some ''qd''\<rparr>)
   \<and> (QUANT_TABLE, ExportQuantTable [(''fc1'', PObj ''q1''), (''fc2'', PObj ''q2'')] ''qd'')
       \<in> set (trace (snd (run toy_env
             (toy_args\<lparr>observe := True, quant_directory := Some ''qd''\<rparr>) init)))"
  by code_simp

text \<open>
  Claim C3, as amended. For every configuration with the observe flag set, the two blocks
  that the flag guards do nothing: the SAVE block (model weights, tokenizer files and the
  two JSON documents, lines 176 to 181) and the safetensors block (lines 193 to 197) record
  no event. The export of the quantization table is not guarded by the flag.
\<close>

theorem observe_suppresses_save:
  assumes "observe a"
  shows "SAVE \<notin> fst ` set (trace (snd (run env a init)))
       \<and> SAVE_SAFETENSORS \<notin> fst ` set (trace (snd (run env a init)))"
proof -
  have "appends (\<lambda>ev. fst ` set ev \<subseteq> UNIV - {SAVE, SAVE_SAFETENSORS}) (run env a)"
    by (rule run_tags) (use assms in simp_all)
  from run_new_tags[OF this] show ?thesis by auto
qed

theorem observe_suppresses_save_witness:
  "observe (toy_args\<lparr>observe := True, save := ''out'', save_safetensors := ''out.st''\<rparr>)
   \<and> SAVE \<notin> fst ` set (trace (snd (run toy_env
         (toy_args\<lparr>observe := True, save := ''out'', save_safetensors := ''out.st''\<rparr>) init)))
   \<and> SAVE_SAFETENSORS \<notin> fst ` set (trace (snd (run toy_env
         (toy_args\<lparr>observe := True, save := ''out'', save_safetensors := ''out.st''\<rparr>) init)))"
  using observe_suppresses_save
    [of "toy_args\<lparr>observe := True, save := ''out'', save_safetensors := ''out.st''\<rparr>" toy_env]
  by (simp add: toy_args_def)

subsection \<open>Unbound variables after a skipped branch\<close>

text \<open>
  Claim C9. Take a run that gets past LOAD (\<^verbatim>\<open>args.layers_dist\<close> parses and a source is
  named) and skips the calibrate-and-pack branch (the model comes from a checkpoint, or the
  bit width is 16 or more, or nearest rounding is set). If \<^verbatim>\<open>args.quant_directory\<close> is set,
  or the save flag is set with observe unset, the run fails with an unbound-variable error,
  on \<^verbatim>\<open>quantizers\<close> in the first case and on \<^verbatim>\<open>quant_info\<close> otherwise, and no metadata was
  persisted: the trace has no write to a JSON document and no export of the table.
\<close>

theorem skipped_branch_unbound:
  assumes gpu: "gpu_dist_of env a = Inr d"
    and src: "as_posix (load a) \<noteq> [] \<or> model a \<noteq> []"
    and skip: "as_posix (load a) \<noteq> [] \<or> 16 \<le> wbits a \<or> nearest a"
    and opt: "quant_directory a \<noteq> None \<or> (\<not> observe a \<and> save a \<noteq> [])"
  shows "fst (run env a init) =
           Inl (UnboundLocalError
                 (if quant_directory a \<noteq> None then ''quantizers'' else ''quant_info''))
         \<and> (\<forall>x \<in> set (trace (snd (run env a init))). \<not> persists_metadata (snd x))"
proof -
  have cp: "calibrate_pack_block env (default_tokenizer (normalise_load a)) =
            ret (default_tokenizer (normalise_load a), None)"
    using skip by (auto simp: calibrate_pack_block_def)
  show ?thesis
  proof (cases "quant_directory a")
    case (Some dir)
    with gpu src cp show ?thesis
      by (auto simp: run_def run_stages_def Let_def load_block_def load_quant_def
          get_torch_model_def sample_block_def quant_table_block_def comp_defs init_def)
  next
    case None
    with opt have "\<not> observe a" "save a \<noteq> []" by auto
    with None gpu src cp show ?thesis
      by (auto simp: run_def run_stages_def Let_def load_block_def load_quant_def
          get_torch_model_def sample_block_def quant_table_block_def save_block_def
          tokenizer_save_pretrained_def comp_defs init_def)
  qed
qed

theorem skipped_branch_unbound_witness:
  "gpu_dist_of toy_env (toy_args\<lparr>load := Str ''ckpt'', quant_directory := Some ''qd''\<rparr>) = Inr []
   \<and> as_posix (load (toy_args\<lparr>load := Str ''ckpt'', quant_directory := Some ''qd''\<rparr>)) \<noteq> []
   \<and> quant_directory (toy_args\<lparr>load := Str ''ckpt'', quant_directory := Some ''qd''\<rparr>) \<noteq> None
   \<and> fst (run toy_env (toy_args\<lparr>load := Str ''ckpt'', quant_directory := Some ''qd''\<rparr>) init)
       = Inl (UnboundLocalError ''quantizers'')"
proof -
  let ?a = "toy_args\<lparr>load := Str ''ckpt'', quant_directory := Some ''qd''\<rparr>"
  have g: "gpu_dist_of toy_env ?a = Inr []"
    by (simp add: gpu_dist_of_def toy_args_def)
  have l: "as_posix (load ?a) \<noteq> []" and q: "quant_directory ?a \<noteq> None"
    by (simp_all add: toy_args_def)
  from skipped_branch_unbound [OF g disjI1 [OF l] disjI1 [OF l] disjI1 [OF q]] g l q
  show ?thesis by auto
qed

subsection \<open>The order of the blocks\<close>

lemma ranked_Nil: "ranked lo hi []"
  by (simp add: ranked_def)

lemma ranked_stage: "lo \<le> block_rank k \<Longrightarrow> block_rank k \<le> hi \<Longrightarrow> ranked lo hi (map (Pair k) ev)"
  by (induction ev) (auto simp: ranked_def)

lemma ranked_append:
  assumes "ranked lo m e1" and "ranked m' hi e2" and "m \<le> m'" and "lo \<le> m'" and "m \<le> hi"
  shows "ranked lo hi (e1 @ e2)"
  using assms unfolding ranked_def
  by (fastforce simp: sorted_append)

lemma ranked_mono: "ranked lo m e \<Longrightarrow> m \<le> hi \<Longrightarrow> ranked lo hi e"
  unfolding ranked_def by (meson le_trans)

lemma ord_in_stage:
  assumes "steady c" and "lo \<le> block_rank k" and "block_rank k \<le> hi"
  shows "appends (ranked lo hi) (in_stage k c)"
  by (rule appends_in_stage[OF assms(1)]) (rule ranked_stage[OF assms(2,3)])

lemma ord_seqE:
  assumes "appends (ranked lo m) c" and "appends (ranked m' hi) d"
    and "m \<le> m'" and "lo \<le> m'" and "m \<le> hi"
  shows "appends (ranked lo hi) (seqE c d)"
  by (rule appends_seqE[OF assms(1,2)])
     (use assms(3-5) in \<open>auto intro: ranked_append ranked_mono\<close>)

lemma ord_when:
  assumes "steady c" and "lo \<le> block_rank k" and "block_rank k \<le> hi"
  shows "appends (ranked lo hi) (in_stage k (whenE b c))"
  by (rule ord_in_stage[OF steady_whenE[OF assms(1)] assms(2,3)])

lemma ord_calibrate_pack_block: "appends (ranked 2 3) (calibrate_pack_block env a)"
proof (cases "as_posix (load a) = [] \<and> wbits a < 16 \<and> \<not> nearest a")
  case True
  have "appends (ranked 2 3)
          (bindE (in_stage CALIBRATE (calibrate_block env a)) (\<lambda>args'.
           bindE (in_stage PACK (pack_block env args')) (\<lambda>r. ret (args', Some r))))"
    apply (rule appends_bindE[where P = "ranked 2 2" and P' = "ranked 3 3" and Q = "\<lambda>x. True"])
        apply (rule ord_in_stage[OF steady_calibrate_block]; simp)
       apply (rule post_True)
      apply (rule appends_bindE[where P = "ranked 3 3" and P' = "\<lambda>ev. ev = []" and Q = "\<lambda>x. True"])
          apply (rule ord_in_stage[OF steady_pack_block]; simp)
         apply (rule post_True)
        apply (rule appends_ret)
        apply (auto intro: ranked_append ranked_mono)
    done
  with True show ?thesis by (simp add: calibrate_pack_block_def)
next
  case False
  then have "calibrate_pack_block env a = ret (a, None)"
    by (auto simp: calibrate_pack_block_def)
  then show ?thesis by (simp add: appends_ret ranked_Nil)
qed

lemma ord_run_stages: "appends (ranked 2 9) (run_stages env a idl)"
proof -
  have rest: "appends (ranked 4 9)
     (seqE (in_stage QUANT_TABLE (quant_table_block a' l))
     (seqE (in_stage SAVE (save_block a' l))
     (seqE (in_stage EVAL (eval_block env a'))
     (seqE (in_stage EXPORT (export_block env a' idl))
     (seqE (in_stage SERVE (serve_block a'))
           (in_stage SAVE_SAFETENSORS (safetensors_block a')))))))" for a' l
    unfolding save_block_def eval_block_def export_block_def serve_block_def
      safetensors_block_def
    apply (rule ord_seqE[where m = 4 and m' = 5])
        apply (rule ord_in_stage[OF steady_quant_table_block]; simp)
       apply (rule ord_seqE[where m = 5 and m' = 6])
           apply (rule ord_when[OF steady_save_body]; simp)
          apply (rule ord_seqE[where m = 6 and m' = 7])
              apply (rule ord_when[OF steady_eval_model]; simp)
             apply (rule ord_seqE[where m = 7 and m' = 8])
                 apply (rule ord_when[OF steady_export_body]; simp)
                apply (rule ord_seqE[where m = 8 and m' = 9])
                    apply (rule ord_when[OF steady_emit]; simp)
                   apply (rule ord_when[OF steady_emit]; simp)
                  apply simp_all
    done
  show ?thesis
    unfolding run_stages_def
    apply (rule appends_bindE[where P = "ranked 2 3" and P' = "ranked 4 9" and Q = "\<lambda>x. True"])
        apply (rule ord_calibrate_pack_block)
       apply (rule post_True)
    subgoal for x by (cases x) (use rest in simp)
     apply (auto intro: ranked_append ranked_mono)
    done
qed

lemma ord_run: "appends (ranked 0 9) (run env a)"
proof -
  let ?a = "default_tokenizer (normalise_load a)"
  have "appends (ranked 0 9)
          (seqE (in_stage LOAD (load_block env ?a))
          (bindE (in_stage SAMPLE (sample_block env)) (\<lambda>idl. run_stages env ?a idl)))"
    apply (rule ord_seqE[where m = 0 and m' = 1])
        apply (rule ord_in_stage[OF steady_load_block]; simp)
       apply (rule appends_bindE[where P = "ranked 1 1" and P' = "ranked 2 9" and Q = "\<lambda>x. True"])
           apply (rule ord_in_stage[OF steady_sample_block]; simp)
          apply (rule post_True)
         apply (rule ord_run_stages)
        apply (auto intro: ranked_append ranked_mono)
    done
  then show ?thesis
    unfolding run_def Let_def
    by (intro appends_bindE[where P = "\<lambda>ev. ev = []" and P' = "ranked 0 9"
          and Q = "\<lambda>x. True"] appends_lift post_True) (auto simp: ranked_Nil)
qed

subsection \<open>The calls of each block\<close>

text \<open>
  Every computation of the file is built from the same few combinators, so what a method
  records can be read off its text: each method only makes calls that belong to the block
  it runs in.
\<close>

lemma makes_ret: "makes P (ret x)"
  by (simp add: makes_def ret_def)

lemma makes_raise: "makes P (raise e)"
  by (simp add: makes_def raise_def)

lemma makes_lift: "makes P (lift r)"
  by (simp add: makes_def lift_def)

lemma makes_emit: "P e \<Longrightarrow> makes P (emit e)"
  unfolding makes_def emit_def
  by (intro allI conjI exI[of _ "[e]"]) simp_all

lemma makes_get_graph: "makes P get_graph"
  by (simp add: makes_def get_graph_def)

lemma makes_set_graph: "makes P (set_graph g)"
  by (simp add: makes_def set_graph_def)

lemma makes_get_quantizers: "makes P get_quantizers"
  by (simp add: makes_def get_quantizers_def)

lemma makes_set_quantizers: "makes P (set_quantizers q)"
  by (simp add: makes_def set_quantizers_def)

lemma makes_set_tokenizer: "makes P (set_tokenizer t)"
  by (simp add: makes_def set_tokenizer_def)

lemma makes_bindE:
  assumes "makes P c" and "\<And>x. makes P (f x)"
  shows "makes P (bindE c f)"
proof -
  have "stage (snd (bindE c f s)) = stage s \<and>
        (\<exists>ev. trace (snd (bindE c f s)) = trace s @ map (Pair (stage s)) ev \<and> (\<forall>e \<in> set ev. P e))"
    for s
  proof (cases "c s")
    case (Pair r s1)
    from assms(1) Pair obtain ev1 where s1: "stage s1 = stage s"
      "trace s1 = trace s @ map (Pair (stage s)) ev1" "\<forall>e \<in> set ev1. P e"
      unfolding makes_def by (metis snd_conv)
    show ?thesis
    proof (cases r)
      case (Inl e)
      with Pair have "bindE c f s = (Inl e, s1)" by (simp add: bindE_def)
      with s1 show ?thesis by auto
    next
      case (Inr x)
      from assms(2)[of x] obtain ev2 where s2: "stage (snd (f x s1)) = stage s1"
        "trace (snd (f x s1)) = trace s1 @ map (Pair (stage s1)) ev2" "\<forall>e \<in> set ev2. P e"
        unfolding makes_def by blast
      have "trace (snd (f x s1)) = trace s @ map (Pair (stage s)) (ev1 @ ev2)"
        using s1 s2 by simp
      moreover have "\<forall>e \<in> set (ev1 @ ev2). P e"
        using s1 s2 by auto
      moreover have "stage (snd (f x s1)) = stage s"
        using s1 s2 by simp
      moreover have "bindE c f s = f x s1"
        using Pair Inr by (simp add: bindE_def)
      ultimately show ?thesis by metis
    qed
  qed
  then show ?thesis unfolding makes_def by blast
qed

lemma makes_seqE: "makes P c \<Longrightarrow> makes P d \<Longrightarrow> makes P (seqE c d)"
  by (simp add: seqE_def makes_bindE)

lemma makes_whenE: "makes P c \<Longrightarrow> makes P (whenE b c)"
  by (simp add: whenE_def makes_ret)

lemmas makes_intros = makes_ret makes_raise makes_lift makes_get_graph
  makes_set_graph makes_get_quantizers makes_set_quantizers makes_set_tokenizer
  makes_bindE makes_seqE makes_whenE

lemma makes_repack_loop:
  assumes "\<And>n. P (Unpack n)" "\<And>n. P (SetOpByName n)" "\<And>n. P (PackGpu n)"
    "\<And>n d. P (LayerTo n d)"
  shows "makes P (repack_loop t b g qs)"
  by (induction qs) (auto simp: Let_def assms intro!: makes_intros makes_emit)

lemma makes_repack_to_new_mode:
  assumes "\<And>n. P (Unpack n)" "\<And>n. P (SetOpByName n)" "\<And>n. P (PackGpu n)"
    "\<And>n d. P (LayerTo n d)" "\<And>m b. P (SelectQuantLinear m b)" "\<And>ts. P (FindLayers ts)"
    "P CudaEmptyCache"
  shows "makes P (repack_to_new_mode env a m)"
  unfolding repack_to_new_mode_def Let_def
  by (intro makes_intros makes_emit makes_repack_loop assms)

lemma makes_pack_loop: "makes (\<lambda>e. PACK \<in> set (blocks_of e)) (pack_loop att names)"
  by (induction names arbitrary: att)
     (auto simp: Let_def split: prod.splits intro!: makes_intros makes_emit)

lemma makes_pack_model: "makes (\<lambda>e. PACK \<in> set (blocks_of e)) (pack_model env a)"
  unfolding pack_model_def Let_def
  by (intro makes_intros makes_emit makes_pack_loop) simp_all

lemma makes_tokenizer_save_pretrained:
  "P (TokenizerSavePretrained p) \<Longrightarrow> makes P (tokenizer_save_pretrained p)"
  unfolding makes_def tokenizer_save_pretrained_def
  using makes_emit[of P "TokenizerSavePretrained p", unfolded makes_def]
    makes_raise[of P AttributeError, unfolded makes_def]
  by (auto split: option.splits)

lemma makes_eval_model: "makes (\<lambda>e. EVAL \<in> set (blocks_of e)) (eval_model env dev a)"
proof -
  have "makes (\<lambda>e. EVAL \<in> set (blocks_of e))
          (\<lambda>s. case self_tokenizer s of None \<Rightarrow> raise TypeError s
                 | Some t \<Rightarrow> emit (Tokenize ''compared with awq, gptq is'') s)"
    unfolding makes_def
    using makes_emit[of "\<lambda>e. EVAL \<in> set (blocks_of e)" "Tokenize ''compared with awq, gptq is''",
        unfolded makes_def]
      makes_raise[of "\<lambda>e. EVAL \<in> set (blocks_of e)" TypeError, unfolded makes_def]
    by (auto split: option.splits)
  then show ?thesis
    unfolding eval_model_def
    by (intro makes_intros makes_emit makes_repack_to_new_mode) simp_all
qed

lemma makes_export_onnx: "makes (\<lambda>e. EXPORT \<in> set (blocks_of e)) (export_onnx env p si wp a)"
  unfolding export_onnx_def Let_def
  by (intro makes_intros makes_emit makes_repack_to_new_mode makes_tokenizer_save_pretrained)
     simp_all

lemma well_tagged_Nil: "well_tagged []"
  by (simp add: well_tagged_def)

lemma well_tagged_append: "well_tagged e1 \<Longrightarrow> well_tagged e2 \<Longrightarrow> well_tagged (e1 @ e2)"
  by (auto simp: well_tagged_def)

lemma wt_in_stage:
  assumes "makes (\<lambda>e. k \<in> set (blocks_of e)) c"
  shows "appends well_tagged (in_stage k c)"
proof -
  have "\<exists>ev. trace (snd (in_stage k c s)) = trace s @ ev \<and> well_tagged ev" for s
  proof -
    from assms obtain ev where
      "trace (snd (c (s\<lparr>stage := k\<rparr>))) =
         trace (s\<lparr>stage := k\<rparr>) @ map (Pair (stage (s\<lparr>stage := k\<rparr>))) ev"
      "\<forall>e \<in> set ev. k \<in> set (blocks_of e)"
      unfolding makes_def by blast
    then have "trace (snd (in_stage k c s)) = trace s @ map (Pair k) ev"
      "well_tagged (map (Pair k) ev)"
      by (auto simp: in_stage_def well_tagged_def)
    then show ?thesis by blast
  qed
  then show ?thesis by (simp add: appends_def)
qed

lemma wt_seqE:
  assumes "appends well_tagged c" and "appends well_tagged d"
  shows "appends well_tagged (seqE c d)"
  by (rule appends_seqE[OF assms]) (auto intro: well_tagged_append)

lemma wt_bindE:
  assumes "appends well_tagged c" and "\<And>x. appends well_tagged (f x)"
  shows "appends well_tagged (bindE c f)"
  by (rule appends_bindE[where P = well_tagged and P' = well_tagged and Q = "\<lambda>x. True"])
     (use assms in \<open>auto simp: post_True intro: well_tagged_append\<close>)

lemma makes_load_block: "makes (\<lambda>e. LOAD \<in> set (blocks_of e)) (load_block env a)"
  unfolding load_block_def load_quant_def get_torch_model_def
  by (auto intro!: makes_intros makes_emit)

lemma makes_sample_block: "makes (\<lambda>e. SAMPLE \<in> set (blocks_of e)) (sample_block env)"
  unfolding sample_block_def by (intro makes_intros makes_emit) simp

lemma makes_calibrate_block:
  "makes (\<lambda>e. CALIBRATE \<in> set (blocks_of e)) (calibrate_block env a)"
  unfolding calibrate_block_def quant_by_sequential_def
  by (intro makes_intros makes_emit) (auto split: mix_conf.splits intro!: makes_intros makes_emit)

lemma makes_pack_block: "makes (\<lambda>e. PACK \<in> set (blocks_of e)) (pack_block env a)"
  unfolding pack_block_def
  by (intro makes_intros makes_emit makes_pack_model) simp

lemma makes_quant_table_block:
  "makes (\<lambda>e. QUANT_TABLE \<in> set (blocks_of e)) (quant_table_block a l)"
  unfolding quant_table_block_def
  by (auto split: option.splits intro!: makes_intros makes_emit)

lemma makes_save_block: "makes (\<lambda>e. SAVE \<in> set (blocks_of e)) (save_block a l)"
  unfolding save_block_def
  by (intro makes_intros makes_emit makes_tokenizer_save_pretrained)
     (auto split: option.splits intro!: makes_intros)

lemma makes_eval_block: "makes (\<lambda>e. EVAL \<in> set (blocks_of e)) (eval_block env a)"
  unfolding eval_block_def by (intro makes_intros makes_eval_model)

lemma makes_export_block: "makes (\<lambda>e. EXPORT \<in> set (blocks_of e)) (export_block env a idl)"
  unfolding export_block_def
  by (intro makes_intros) (auto split: list.splits intro!: makes_intros makes_export_onnx)

lemma makes_serve_block: "makes (\<lambda>e. SERVE \<in> set (blocks_of e)) (serve_block a)"
  unfolding serve_block_def by (intro makes_intros makes_emit) simp

lemma makes_safetensors_block:
  "makes (\<lambda>e. SAVE_SAFETENSORS \<in> set (blocks_of e)) (safetensors_block a)"
  unfolding safetensors_block_def by (intro makes_intros makes_emit) simp

lemma wt_calibrate_pack_block: "appends well_tagged (calibrate_pack_block env a)"
  unfolding calibrate_pack_block_def
  by (auto intro!: wt_bindE wt_in_stage makes_calibrate_block makes_pack_block appends_ret
      well_tagged_Nil)

lemma wt_run_stages: "appends well_tagged (run_stages env a idl)"
  unfolding run_stages_def
  by (auto intro!: wt_bindE wt_seqE wt_in_stage wt_calibrate_pack_block makes_quant_table_block
      makes_save_block makes_eval_block makes_export_block makes_serve_block
      makes_safetensors_block)

lemma wt_run: "appends well_tagged (run env a)"
  unfolding run_def Let_def
  by (intro wt_bindE wt_seqE wt_in_stage wt_run_stages makes_load_block makes_sample_block
      appends_lift well_tagged_Nil)

lemma eval_export_serve_rank:
  "eval_export_serve e \<Longrightarrow> k \<in> set (blocks_of e) \<Longrightarrow> 6 \<le> block_rank k"
  by (cases e) auto

lemma save_dir_write_rank:
  "save_dir_write (k, e) \<Longrightarrow> k \<in> set (blocks_of e) \<Longrightarrow> block_rank k = 5"
  by (cases e) auto

lemma safetensors_write_rank:
  "safetensors_write e \<Longrightarrow> k \<in> set (blocks_of e) \<Longrightarrow> block_rank k = 9"
  by (cases e) auto

lemma eval_export_serve_rank_le:
  "eval_export_serve e \<Longrightarrow> k \<in> set (blocks_of e) \<Longrightarrow> block_rank k \<le> 8"
  by (cases e) auto

text \<open>
  The definitions that an evaluation of \<^verbatim>\<open>run\<close> on the toy model unfolds, and the run of
  the configuration with every optional block enabled: it returns normally and records
  fifty-one calls.
\<close>

lemmas run_defs = run_def run_stages_def Let_def load_block_def load_quant_def
  get_torch_model_def sample_block_def calibrate_pack_block_def calibrate_block_def
  pack_block_def quant_by_sequential_def quant_table_block_def save_block_def eval_block_def
  export_block_def serve_block_def safetensors_block_def eval_model_def export_onnx_def
  repack_to_new_mode_def tokenizer_save_pretrained_def pack_model_def comp_defs init_def
  gpu_dist_of_def normalise_load_def default_tokenizer_def toy_args_def toy_env_def
  toy_graph_def toy_layer_def find_layers_def set_op_by_name_def make_mixbits_quant_linear_def
  pack_gpu_def lookup_def quant_layers_def NEED_CHECK_PACK_def toy_quantizers_def

lemma all_blocks_run:
  "fst (run toy_env toy_all_blocks init) = Inr ()"
  "trace (snd (run toy_env toy_all_blocks init)) =
    [(LOAD, TokenizerFromPretrained ''llama''), (LOAD, FromPretrained ''llama''),
     (LOAD, ModelEval), (SAMPLE, GetSampleDatas), (CALIBRATE, Quantize),
     (PACK, FindLayers [Linear, ScaledLinear]), (PACK, SelectQuantLinear ''GEMM'' 4),
     (PACK, MakeMixbitsQuantLinear (QuantLinear ''GEMM'')),
     (PACK, FindLayers [QuantLinear ''GEMM'']), (PACK, PackGpu ''fc1''),
     (PACK, PackGpu ''fc2''),
     (PACK, LogInfo ''Finished quantization and packing weight, time cost:''),
     (QUANT_TABLE, ExportQuantTable [(''fc1'', PObj ''q1''), (''fc2'', PObj ''q2'')] ''qd''),
     (SAVE, ModelSavePretrained ''out''), (SAVE, TokenizerSavePretrained ''out''),
     (SAVE, OpenW ''out/quant.op.json''),
     (SAVE, WriteF ''out/quant.op.json''
        (JsonQuantInfo [(''fc1'', LayerInfo (PInt 4) (PInt 128)),
           (''fc2'', LayerInfo (PInt 4) (PInt 128)), (''method'', Method ''gptq'')])),
     (SAVE, OpenW ''out/quant_config.json''),
     (SAVE, WriteF ''out/quant_config.json''
        (JsonQuantConfig \<lparr>zero_point = True, q_group_size = 128, w_bit = 4,
           version = ''GEMM''\<rparr>)),
     (EVAL, LogInfo ''Evaluating ...''),
     (EVAL, LogWarning
        ''AWQ inference engine not found, will convert to GPTQ packing for inference.''),
     (EVAL, SelectQuantLinear ''GEMM'' 4), (EVAL, SelectQuantLinear ''GPTQ'' 4),
     (EVAL, FindLayers [QuantLinear ''GEMM'']), (EVAL, Unpack ''fc1''),
     (EVAL, SetOpByName ''fc1''), (EVAL, PackGpu ''fc1''), (EVAL, LayerTo ''fc1'' ''cpu''),
     (EVAL, Unpack ''fc2''), (EVAL, SetOpByName ''fc2''), (EVAL, PackGpu ''fc2''),
     (EVAL, LayerTo ''fc2'' ''cpu''), (EVAL, CudaEmptyCache), (EVAL, ModelEval),
     (EVAL, ModelTo ''cuda:0''), (EVAL, Tokenize ''compared with awq, gptq is''),
     (EVAL, Generate 50), (EVAL, ModelTo ''cpu''), (EVAL, PrintDecoded),
     (EXPORT, SelectQuantLinear ''GEMM'' 4), (EXPORT, SelectQuantLinear ''ORT'' 4),
     (EXPORT, FindLayers [QuantLinear ''GEMM'']), (EXPORT, CudaEmptyCache),
     (EXPORT, ExporterExportOnnx ''onnx'' True 16), (EXPORT, TokenizerSavePretrained ''onnx''),
     (EXPORT, InferenceSession ''onnx/model.onnx''),
     (EXPORT, SessionRun (PObj ''ids'') (PObj ''np.ones'') 2),
     (EXPORT, ModelForward (PObj ''ids'')),
     (EXPORT, PrintOut [PStr ''max abs err:'', PFloat (Finite (1 / 2)),
        PStr ''correctness check '', PStr ''not'', PStr '' passed'']),
     (SERVE, LoopInChatCompletion ''llama''), (SAVE_SAFETENSORS, SafeSave ''out.st'')]"
  by (simp_all add: run_defs toy_all_blocks_def)

text \<open>
  The spec puts all persistence of SAVE before EVAL, EXPORT and SERVE. The safetensors file
  is written by the last block of \<^verbatim>\<open>run\<close>: on the toy configuration with the chat plugin
  and a safetensors path, the trace ends with SERVE followed by the safetensors block, which
  is out of the spec's order.
\<close>

theorem safetensors_after_serve_counterexample:
  "map fst (trace (snd (run toy_env
      (toy_args\<lparr>load := Str ''ckpt'', use_plugin := True, save_safetensors := ''out.st''\<rparr>)
      init))) = [LOAD, LOAD, LOAD, SAMPLE, SERVE, SAVE_SAFETENSORS]
   \<and> \<not> sorted (map (spec_rank \<circ> fst) (trace (snd (run toy_env
      (toy_args\<lparr>load := Str ''ckpt'', use_plugin := True, save_safetensors := ''out.st''\<rparr>)
      init))))"
  by code_simp

text \<open>
  Claim C8, as amended. For every configuration, the blocks of \<^verbatim>\<open>run\<close> execute in the order
  of the source text: LOAD, the fetch of the samples, CALIBRATE, PACK, the export of the
  quantization table, SAVE into the save directory, EVAL, EXPORT, SERVE, and last the
  safetensors file. The tags of the trace never decrease in that order, so no block runs
  out of order or twice, and every recorded call carries the tag of a block in which the
  source makes it. In terms of the calls themselves: no call that only evaluation, export
  or the chat plugin makes comes before a write of SAVE into the save directory (the model,
  the tokenizer, the two JSON documents), and the safetensors file is never written before
  such a call.
\<close>

theorem blocks_in_source_order:
  "sorted (map (block_rank \<circ> fst) (trace (snd (run env a init))))
   \<and> (\<forall>x \<in> set (trace (snd (run env a init))). fst x \<in> set (blocks_of (snd x)))
   \<and> (\<forall>i j. i < j \<longrightarrow> j < length (trace (snd (run env a init))) \<longrightarrow>
          save_dir_write (trace (snd (run env a init)) ! j) \<longrightarrow>
          \<not> eval_export_serve (snd (trace (snd (run env a init)) ! i)))
   \<and> (\<forall>i j. i < j \<longrightarrow> j < length (trace (snd (run env a init))) \<longrightarrow>
          eval_export_serve (snd (trace (snd (run env a init)) ! j)) \<longrightarrow>
          \<not> safetensors_write (snd (trace (snd (run env a init)) ! i)))"
proof -
  let ?t = "trace (snd (run env a init))"
  from ord_run obtain ev where "?t = trace init @ ev" "ranked 0 9 ev"
    unfolding appends_def by blast
  then have sorted: "sorted (map (block_rank \<circ> fst) ?t)"
    by (simp add: init_def ranked_def)
  from wt_run obtain ev' where "?t = trace init @ ev'" "well_tagged ev'"
    unfolding appends_def by blast
  then have tagged: "\<forall>x \<in> set ?t. fst x \<in> set (blocks_of (snd x))"
    by (simp add: init_def well_tagged_def)
  have mono: "block_rank (fst (?t ! i)) \<le> block_rank (fst (?t ! j))"
    if "i < j" "j < length ?t" for i j
    using sorted that by (simp add: sorted_iff_nth_mono)
  have at: "fst (?t ! i) \<in> set (blocks_of (snd (?t ! i)))" if "i < length ?t" for i
    using tagged that by simp
  have save: "\<not> eval_export_serve (snd (?t ! i))"
    if "i < j" "j < length ?t" "save_dir_write (?t ! j)" for i j
  proof
    assume e: "eval_export_serve (snd (?t ! i))"
    from that have i: "i < length ?t" by simp
    from eval_export_serve_rank[OF e at[OF i]] have "6 \<le> block_rank (fst (?t ! i))" .
    moreover from that(3) have "save_dir_write (fst (?t ! j), snd (?t ! j))" by simp
    from save_dir_write_rank[OF this at[OF that(2)]] have "block_rank (fst (?t ! j)) = 5" .
    ultimately show False using mono[OF that(1,2)] by simp
  qed
  have safe: "\<not> safetensors_write (snd (?t ! i))"
    if "i < j" "j < length ?t" "eval_export_serve (snd (?t ! j))" for i j
  proof
    assume e: "safetensors_write (snd (?t ! i))"
    from that have i: "i < length ?t" by simp
    from safetensors_write_rank[OF e at[OF i]] have "block_rank (fst (?t ! i)) = 9" .
    moreover from eval_export_serve_rank_le[OF that(3) at[OF that(2)]]
    have "block_rank (fst (?t ! j)) \<le> 8" .
    ultimately show False using mono[OF that(1,2)] by simp
  qed
  from sorted tagged save safe show ?thesis by blast
qed

text \<open>
  The configuration with every optional block enabled reaches all ten blocks. Its last
  write into the save directory, of \<^verbatim>\<open>quant_config.json\<close>, is the call at position 18, the
  chat plugin is the call at position 49, and the safetensors file is the last call.
\<close>

theorem blocks_in_source_order_witness:
  "fst (run toy_env toy_all_blocks init) = Inr ()
   \<and> map fst (trace (snd (run toy_env toy_all_blocks init))) =
       [LOAD, LOAD, LOAD, SAMPLE, CALIBRATE, PACK, PACK, PACK, PACK, PACK, PACK, PACK,
        QUANT_TABLE, SAVE, SAVE, SAVE, SAVE, SAVE, SAVE,
        EVAL, EVAL, EVAL, EVAL, EVAL, EVAL, EVAL, EVAL, EVAL, EVAL, EVAL, EVAL, EVAL, EVAL,
        EVAL, EVAL, EVAL, EVAL, EVAL, EVAL,
        EXPORT, EXPORT, EXPORT, EXPORT, EXPORT, EXPORT, EXPORT, EXPORT, EXPORT, EXPORT,
        SERVE, SAVE_SAFETENSORS]
   \<and> sorted (map (block_rank \<circ> fst) (trace (snd (run toy_env toy_all_blocks init))))
   \<and> save_dir_write (trace (snd (run toy_env toy_all_blocks init)) ! 18)
   \<and> \<not> eval_export_serve (snd (trace (snd (run toy_env toy_all_blocks init)) ! 17))
   \<and> eval_export_serve (snd (trace (snd (run toy_env toy_all_blocks init)) ! 49))
   \<and> \<not> safetensors_write (snd (trace (snd (run toy_env toy_all_blocks init)) ! 48))"
proof -
  let ?t = "trace (snd (run toy_env toy_all_blocks init))"
  have len: "(17::nat) < 18" "18 < length ?t" "(48::nat) < 49" "49 < length ?t"
    by (simp_all add: all_blocks_run(2))
  have w: "save_dir_write (?t ! 18)" and e: "eval_export_serve (snd (?t ! 49))"
    by (simp_all add: all_blocks_run(2))
  have tags: "map fst ?t =
       [LOAD, LOAD, LOAD, SAMPLE, CALIBRATE, PACK, PACK, PACK, PACK, PACK, PACK, PACK,
        QUANT_TABLE, SAVE, SAVE, SAVE, SAVE, SAVE, SAVE,
        EVAL, EVAL, EVAL, EVAL, EVAL, EVAL, EVAL, EVAL, EVAL, EVAL, EVAL, EVAL, EVAL, EVAL,
        EVAL, EVAL, EVAL, EVAL, EVAL, EVAL,
        EXPORT, EXPORT, EXPORT, EXPORT, EXPORT, EXPORT, EXPORT, EXPORT, EXPORT, EXPORT,
        SERVE, SAVE_SAFETENSORS]"
    by (simp add: all_blocks_run(2))
  from blocks_in_source_order [of toy_env toy_all_blocks] len w e
  have "sorted (map (block_rank \<circ> fst) ?t)"
    "\<not> eval_export_serve (snd (?t ! 17))" "\<not> safetensors_write (snd (?t ! 48))"
    by blast+
  with all_blocks_run(1) tags w e show ?thesis by blast
qed

subsection \<open>\<^verbatim>\<open>repack_to_new_mode\<close>\<close>

lemma set_op_by_name_twice:
  "set_op_by_name (set_op_by_name g n x) n y = set_op_by_name g n y"
  by (auto simp: set_op_by_name_def)

lemma repack_loop_run:
  "repack_loop t b gs L s =
     (Inr (), s\<lparr>module_graph := fold (\<lambda>(n, q) G. set_op_by_name G n (repacked t b gs q)) L
                                   (module_graph s),
                trace := trace s @ map (Pair (stage s)) (repack_calls L)\<rparr>)"
proof (induction L arbitrary: s)
  case Nil
  then show ?case by (simp add: ret_def repack_calls_def)
next
  case (Cons x L)
  obtain n q where x: "x = (n, q)" by (cases x)
  show ?case
    unfolding x
    by (simp add: Cons.IH Let_def comp_defs set_op_by_name_twice repacked_def repack_calls_def)
qed

lemma fold_set_op_by_name:
  "distinct (map fst L) \<Longrightarrow>
   fold (\<lambda>(n, q) G. set_op_by_name G n (f q)) L G =
   map (\<lambda>(n, l). case map_of L n of Some q \<Rightarrow> (n, f q) | None \<Rightarrow> (n, l)) G"
proof (induction L arbitrary: G)
  case Nil
  then show ?case by simp
next
  case (Cons x L)
  obtain n q where x: "x = (n, q)" by (cases x)
  from Cons.prems x have n: "map_of L n = None" and d: "distinct (map fst L)"
    by (auto simp: map_of_eq_None_iff)
  have "fold (\<lambda>(n, q) G. set_op_by_name G n (f q)) (x # L) G =
        fold (\<lambda>(n, q) G. set_op_by_name G n (f q)) L (set_op_by_name G n (f q))"
    by (simp add: x)
  also have "\<dots> = map (\<lambda>(n, l). case map_of L n of Some q \<Rightarrow> (n, f q) | None \<Rightarrow> (n, l))
                     (set_op_by_name G n (f q))"
    by (rule Cons.IH[OF d])
  also have "\<dots> = map (\<lambda>(n, l). case map_of (x # L) n of Some q \<Rightarrow> (n, f q) | None \<Rightarrow> (n, l)) G"
    unfolding set_op_by_name_def map_map
    by (rule map_cong) (auto simp: x n)
  finally show ?case .
qed

lemma map_of_find_layers:
  assumes "distinct (map fst G)" and "(n, l) \<in> set G"
  shows "map_of (find_layers G ts) n = (if ltype l \<in> set ts then Some l else None)"
proof (cases "ltype l \<in> set ts")
  case True
  have "distinct (map fst (find_layers G ts))"
    unfolding find_layers_def using assms(1) by (rule distinct_map_filter)
  moreover have "(n, l) \<in> set (find_layers G ts)"
    using assms(2) True by (simp add: find_layers_def)
  ultimately show ?thesis using True by simp
next
  case False
  have "n \<notin> fst ` set (find_layers G ts)"
  proof
    assume "n \<in> fst ` set (find_layers G ts)"
    then obtain l' where l': "(n, l') \<in> set G" "ltype l' \<in> set ts"
      by (auto simp: find_layers_def)
    with assms have "l' = l" by (meson eq_key_imp_eq_value)
    with l' False show False by simp
  qed
  with False show ?thesis by (simp add: map_of_eq_None_iff)
qed

lemma fold_find_layers:
  assumes "distinct (map fst G)"
  shows "fold (\<lambda>(n, q) G. set_op_by_name G n (repacked t b gs q)) (find_layers G [src]) G =
         repack_graph src t b gs G"
proof -
  have d: "distinct (map fst (find_layers G [src]))"
    unfolding find_layers_def using assms by (rule distinct_map_filter)
  show ?thesis
    unfolding fold_set_op_by_name[OF d] repack_graph_def
    by (rule map_cong) (auto simp: map_of_find_layers[OF assms])
qed

lemma repack_to_new_mode_run:
  assumes "distinct (map fst (module_graph s))"
  shows "repack_to_new_mode env a m s =
     (Inr (), s\<lparr>module_graph :=
                  repack_graph (select_quant_linear env (pack_mode a) (wbits a))
                    (select_quant_linear env m (wbits a)) (wbits a) (groupsize a)
                    (module_graph s),
                trace := trace s @ map (Pair (stage s)) (repack_events env a m (module_graph s))\<rparr>)"
  by (simp add: repack_to_new_mode_def Let_def comp_defs repack_loop_run
      fold_find_layers[OF assms] repack_events_def)

lemma no_warning_in_repack: "filter is_warning (repack_events env a m g) = []"
proof -
  have "filter is_warning (repack_calls L) = []" for L
    by (induction L) (auto simp: repack_calls_def)
  then show ?thesis by (simp add: repack_events_def)
qed

text \<open>
  Claim C4. The pack mode without an inference engine is, in this file, the mode \<^verbatim>\<open>GEMM\<close>
  when \<^verbatim>\<open>has_awq_inference_engine()\<close> is false; it is the only engine the code probes.
  Then \<^verbatim>\<open>eval_model\<close>, called with a loaded tokenizer on a graph with distinct layer names,
  returns normally; before it generates, every layer of the class selected for \<^verbatim>\<open>GEMM\<close> is
  replaced by a layer of the class selected for the fallback mode \<^verbatim>\<open>GPTQ\<close>; and among the
  calls it makes there is exactly one warning.
\<close>

theorem eval_model_falls_back:
  assumes "\<not> has_awq_inference_engine env" and "pack_mode a = ''GEMM''"
    and "self_tokenizer s \<noteq> None" and "distinct (map fst (module_graph s))"
  shows "eval_model env dev a s =
     (Inr (), s\<lparr>module_graph :=
                  repack_graph (select_quant_linear env ''GEMM'' (wbits a))
                    (select_quant_linear env ''GPTQ'' (wbits a)) (wbits a) (groupsize a)
                    (module_graph s),
                trace := trace s @ map (Pair (stage s))
                  ([LogInfo ''Evaluating ...'',
                    LogWarning ''AWQ inference engine not found, will convert to GPTQ packing for inference.'']
                   @ repack_events env a ''GPTQ'' (module_graph s)
                   @ [ModelEval, ModelTo dev, Tokenize ''compared with awq, gptq is'',
                      Generate 50, ModelTo ''cpu'', PrintDecoded])\<rparr>)
   \<and> length (filter is_warning
        ([LogInfo ''Evaluating ...'',
          LogWarning ''AWQ inference engine not found, will convert to GPTQ packing for inference.'']
         @ repack_events env a ''GPTQ'' (module_graph s)
         @ [ModelEval, ModelTo dev, Tokenize ''compared with awq, gptq is'',
            Generate 50, ModelTo ''cpu'', PrintDecoded])) = 1"
proof -
  from assms(3) obtain t where t: "self_tokenizer s = Some t" by auto
  have r: "repack_to_new_mode env a ''GPTQ'' s' =
     (Inr (), s'\<lparr>module_graph :=
                  repack_graph (select_quant_linear env ''GEMM'' (wbits a))
                    (select_quant_linear env ''GPTQ'' (wbits a)) (wbits a) (groupsize a)
                    (module_graph s'),
                trace := trace s' @ map (Pair (stage s')) (repack_events env a ''GPTQ'' (module_graph s'))\<rparr>)"
    if "module_graph s' = module_graph s" for s'
    using repack_to_new_mode_run[of s' env a "''GPTQ''"] that assms(2,4) by simp
  show ?thesis
    using assms(1,2) t
    by (simp add: eval_model_def comp_defs r no_warning_in_repack)
qed

theorem eval_model_falls_back_witness:
  "\<not> has_awq_inference_engine toy_env \<and> pack_mode toy_args = ''GEMM''
   \<and> self_tokenizer toy_loaded \<noteq> None \<and> distinct (map fst (module_graph toy_loaded))
   \<and> fst (eval_model toy_env ''cuda:0'' toy_args toy_loaded) = Inr ()
   \<and> map (ltype \<circ> snd) (module_graph (snd (eval_model toy_env ''cuda:0'' toy_args toy_loaded)))
       = [QuantLinear ''GPTQ'', OtherLayer ''GELU'', QuantLinear ''GPTQ'']"
proof -
  have h: "\<not> has_awq_inference_engine toy_env" "pack_mode toy_args = ''GEMM''"
    "self_tokenizer toy_loaded \<noteq> None" "distinct (map fst (module_graph toy_loaded))"
    by (simp_all add: toy_env_def toy_args_def toy_loaded_def init_def toy_packed_graph_def)
  from eval_model_falls_back [OF h, of "''cuda:0''"] h show ?thesis
    by (simp add: repack_graph_def repacked_def toy_loaded_def init_def toy_packed_graph_def
        toy_layer_def toy_env_def)
qed

text \<open>
  What \<^verbatim>\<open>export_onnx\<close> does when it is called with a loaded tokenizer, a graph with distinct
  layer names and sample inputs of at least two items. It returns normally whatever the
  consistency check measures. When the configured pack mode is not \<^verbatim>\<open>ORT\<close> it first replaces
  every layer of the class selected for the configured mode by a layer of the class selected
  for \<^verbatim>\<open>ORT\<close>; then it calls the exporter; the check comes after, and its last call prints
  the measured magnitude. When the magnitude is above 1/100 the line says that the check has
  not passed.
\<close>

lemma export_onnx_check_is_advisory:
  assumes tok: "self_tokenizer s \<noteq> None" and names: "distinct (map fst (module_graph s))"
    and m: "subscript sample_inputs 1 = Inr m" and ids: "subscript sample_inputs 0 = Inr input_ids"
  shows "export_onnx env p sample_inputs wp a s =
     (Inr (),
      s\<lparr>module_graph :=
          (if pack_mode a \<noteq> ''ORT''
           then repack_graph (select_quant_linear env (pack_mode a) (wbits a))
                  (select_quant_linear env ''ORT'' (wbits a)) (wbits a) (groupsize a)
                  (module_graph s)
           else module_graph s),
        trace := trace s @ map (Pair (stage s))
          ((if pack_mode a \<noteq> ''ORT'' then repack_events env a ''ORT'' (module_graph s) else [])
           @ verification_events env p wp input_ids m)\<rparr>)
   \<and> (\<forall>r. max_abs_err env = Finite r \<longrightarrow> 1 / 100 < r \<longrightarrow>
         last (verification_events env p wp input_ids m) =
           PrintOut [PStr ''max abs err:'', PFloat (Finite r), PStr ''correctness check '',
             PStr ''not'', PStr '' passed''])"
proof -
  from tok obtain t where t: "self_tokenizer s = Some t" by auto
  show ?thesis
  proof (cases "pack_mode a = ''ORT''")
    case True
    with t m ids show ?thesis
      by (simp add: export_onnx_def Let_def comp_defs tokenizer_save_pretrained_def
          verification_events_def)
  next
    case False
    with t m ids show ?thesis
      by (simp add: export_onnx_def Let_def comp_defs tokenizer_save_pretrained_def
          verification_events_def repack_to_new_mode_run[OF names])
  qed
qed

lemma export_onnx_check_is_advisory_instance:
  "self_tokenizer toy_loaded \<noteq> None \<and> distinct (map fst (module_graph toy_loaded))
   \<and> subscript (PTuple [PObj ''ids'', PNone]) 1 = Inr PNone
   \<and> subscript (PTuple [PObj ''ids'', PNone]) 0 = Inr (PObj ''ids'')
   \<and> fst (export_onnx toy_env ''out'' (PTuple [PObj ''ids'', PNone]) True toy_args toy_loaded)
       = Inr ()
   \<and> last (verification_events toy_env ''out'' True (PObj ''ids'') PNone) =
       PrintOut [PStr ''max abs err:'', PFloat (Finite (1 / 2)), PStr ''correctness check '',
         PStr ''not'', PStr '' passed'']"
proof -
  have h: "self_tokenizer toy_loaded \<noteq> None" "distinct (map fst (module_graph toy_loaded))"
    "subscript (PTuple [PObj ''ids'', PNone]) 1 = Inr PNone"
    "subscript (PTuple [PObj ''ids'', PNone]) 0 = Inr (PObj ''ids'')"
    by (simp_all add: toy_loaded_def init_def toy_packed_graph_def)
  have m: "max_abs_err toy_env = Finite (1 / 2)" "(1::rat) / 100 < 1 / 2"
    by (simp_all add: toy_env_def)
  from export_onnx_check_is_advisory [OF h, of toy_env "''out''" True toy_args] h m
  show ?thesis by simp
qed

text \<open>
  Claim C5. \<^verbatim>\<open>export_onnx\<close> is to repack the model to the pack mode of the export whenever
  the model is not in that mode, before it produces the export. It decides by
  \<^verbatim>\<open>args.pack_mode\<close>, and \<^verbatim>\<open>eval_model\<close> changes the packing of the model without changing
  \<^verbatim>\<open>args.pack_mode\<close>. On the toy configuration, with the checkpoint packed as \<^verbatim>\<open>GEMM\<close>, no
  AWQ engine, and both evaluation and export requested, \<^verbatim>\<open>run\<close> returns normally; EVAL has
  repacked the layers to the class of \<^verbatim>\<open>GPTQ\<close>; in EXPORT, \<^verbatim>\<open>repack_to_new_mode\<close> looks for
  layers of the class of \<^verbatim>\<open>GEMM\<close>, finds none and unpacks and packs nothing; the exporter is
  called all the same, and the layers still have the class of \<^verbatim>\<open>GPTQ\<close>, not that of
  \<^verbatim>\<open>ORT\<close>, when the run ends.
\<close>

theorem export_after_fallback_skips_repack:
  "pack_mode toy_eval_export = ''GEMM'' \<and> \<not> has_awq_inference_engine toy_env
   \<and> eval toy_eval_export \<and> export_onnx_path toy_eval_export = ''out''
   \<and> select_quant_linear toy_env ''ORT'' (wbits toy_eval_export) = QuantLinear ''ORT''
   \<and> fst (run toy_env toy_eval_export init) = Inr ()
   \<and> map snd (filter (\<lambda>x. fst x = EXPORT) (trace (snd (run toy_env toy_eval_export init)))) =
       [SelectQuantLinear ''GEMM'' 4, SelectQuantLinear ''ORT'' 4,
        FindLayers [QuantLinear ''GEMM''], CudaEmptyCache,
        ExporterExportOnnx ''out'' True 16, TokenizerSavePretrained ''out'',
        InferenceSession ''out/model.onnx'',
        SessionRun (PObj ''ids'') (PObj ''np.ones'') 2, ModelForward (PObj ''ids''),
        PrintOut [PStr ''max abs err:'', PFloat (Finite (1 / 2)), PStr ''correctness check '',
          PStr ''not'', PStr '' passed'']]
   \<and> map (ltype \<circ> snd) (module_graph (snd (run toy_env toy_eval_export init))) =
       [QuantLinear ''GPTQ'', OtherLayer ''GELU'', QuantLinear ''GPTQ'']"
  by (simp add: run_def run_stages_def Let_def load_block_def load_quant_def
      sample_block_def calibrate_pack_block_def quant_table_block_def save_block_def
      eval_block_def export_block_def serve_block_def safetensors_block_def eval_model_def
      export_onnx_def repack_to_new_mode_def tokenizer_save_pretrained_def comp_defs init_def
      gpu_dist_of_def normalise_load_def default_tokenizer_def toy_args_def toy_env_def
      toy_packed_graph_def toy_layer_def find_layers_def set_op_by_name_def
      toy_eval_export_def)

subsection \<open>Repacking a layer packed at its own width\<close>

text \<open>
  \<^verbatim>\<open>repack_to_new_mode\<close> constructs every new layer with \<^verbatim>\<open>args.wbits\<close> and \<^verbatim>\<open>args.groupsize\<close>
  (lines 98 and 106) and packs it without a group index (line 108), whatever the width and
  the group index of the layer it replaces. The shape and the bias are those of the old
  layer.
\<close>

lemma repacked_width:
  "bits (repacked t b gs l) = PInt b" "group_size (repacked t b gs l) = PInt gs"
  "infeatures (repacked t b gs l) = infeatures l" "outfeatures (repacked t b gs l) = outfeatures l"
  "has_bias (repacked t b gs l) = has_bias l"
  "\<exists>w sc z. weight (repacked t b gs l) = Packed w sc z PNone"
  by (simp_all add: repacked_def)

lemma repack_graph_names: "map fst (repack_graph src t b gs G) = map fst G"
  by (induction G) (auto simp: repack_graph_def)

lemma repack_to_new_mode_sets_width:
  assumes names: "distinct (map fst (module_graph s))" and l: "(n, l) \<in> set (module_graph s)"
    and src: "ltype l = select_quant_linear env (pack_mode a) (wbits a)"
  shows "map_of (module_graph (snd (repack_to_new_mode env a m s))) n =
           Some (repacked (select_quant_linear env m (wbits a)) (wbits a) (groupsize a) l)"
proof -
  let ?G = "repack_graph (select_quant_linear env (pack_mode a) (wbits a))
              (select_quant_linear env m (wbits a)) (wbits a) (groupsize a) (module_graph s)"
  have "(n, repacked (select_quant_linear env m (wbits a)) (wbits a) (groupsize a) l) \<in> set ?G"
    using l src by (force simp: repack_graph_def)
  moreover have "distinct (map fst ?G)"
    using names by (simp add: repack_graph_names)
  ultimately have "map_of ?G n =
      Some (repacked (select_quant_linear env m (wbits a)) (wbits a) (groupsize a) l)"
    by (rule map_of_is_SomeI[rotated])
  then show ?thesis by (simp add: repack_to_new_mode_run[OF names])
qed

text \<open>
  With the arithmetic of the spec, repacking at a width that holds every code gives back
  the codes exactly; a code that does not fit the new width is clamped to the largest code
  of that width.
\<close>

lemma requantize_exact:
  assumes "scale \<noteq> 0" and "0 \<le> q" and "q < 2 ^ nbits"
  shows "quantize_value nbits scale zero (dequantize_value scale zero q) = q"
proof -
  have "dequantize_value scale zero q / scale = of_int (q - zero)"
    using assms(1) by (simp add: dequantize_value_def)
  then have "round (dequantize_value scale zero q / scale) = q - zero"
    by (simp only: round_of_int)
  then have "round (dequantize_value scale zero q / scale) + zero = q"
    by simp
  with assms(2,3) show ?thesis
    by (simp add: quantize_value_def)
qed

lemma repack_codes_exact:
  assumes "scale \<noteq> 0" and "\<forall>q \<in> set qs. 0 \<le> q \<and> q < 2 ^ nbits"
  shows "repack_codes nbits scale zero qs = qs"
  using assms by (induction qs) (simp_all add: repack_codes_def requantize_exact)

lemma requantize_clamped:
  assumes "scale \<noteq> 0" and "2 ^ nbits \<le> q"
  shows "quantize_value nbits scale zero (dequantize_value scale zero q) = 2 ^ nbits - 1"
proof -
  have "dequantize_value scale zero q / scale = of_int (q - zero)"
    using assms(1) by (simp add: dequantize_value_def)
  then have "round (dequantize_value scale zero q / scale) = q - zero"
    by (simp only: round_of_int)
  then have "round (dequantize_value scale zero q / scale) + zero = q"
    by simp
  moreover have "(0::int) \<le> 2 ^ nbits - 1" by simp
  ultimately show ?thesis using assms(2)
    by (simp add: quantize_value_def)
qed

text \<open>
  Claim C1. \<^verbatim>\<open>repack_to_new_mode\<close> is to change only the storage layout of the packed layers
  and keep their quantized values, so that repacking to another mode and back reproduces
  the packed buffers. \<^verbatim>\<open>pack_model\<close> packs every layer at the width the quantizer returned
  for it (line 76), but \<^verbatim>\<open>repack_to_new_mode\<close> rebuilds every layer at the configured width.
  On the toy model with the mixed-precision quantizer, configured for 4 bits in groups of
  128 and the mode \<^verbatim>\<open>GEMM\<close>, with no AWQ engine: after \<^verbatim>\<open>run\<close> without evaluation the first
  layer is packed at 8 bits in groups of 64; after \<^verbatim>\<open>run\<close> with evaluation, whose fallback
  repacks to \<^verbatim>\<open>GPTQ\<close>, it is a layer of 4 bits in groups of 128; repacking that model back
  to \<^verbatim>\<open>GEMM\<close> leaves it at 4 bits in groups of 128, not at the 8 bits and groups of 64 it
  was packed with. With the arithmetic of the spec, the codes 200 and 7 of an 8-bit layer
  (scale 1/2, zero point 8) are kept by a repack at 8 bits and become 15 and 7 at the
  configured width: the value is requantized.
\<close>

theorem repack_resets_layer_width:
  "wbits toy_args = 4 \<and> groupsize toy_args = 128 \<and> pack_mode toy_args = ''GEMM''
   \<and> \<not> has_awq_inference_engine toy_mixed_env
   \<and> fst (run toy_mixed_env toy_args init) = Inr ()
   \<and> widths (module_graph (snd (run toy_mixed_env toy_args init))) =
       [(''fc1'', QuantLinear ''GEMM'', PInt 8, PInt 64),
        (''act'', OtherLayer ''GELU'', PNone, PNone),
        (''fc2'', QuantLinear ''GEMM'', PInt 4, PInt 128)]
   \<and> fst (run toy_mixed_env (toy_args\<lparr>eval := True\<rparr>) init) = Inr ()
   \<and> widths (module_graph (snd (run toy_mixed_env (toy_args\<lparr>eval := True\<rparr>) init))) =
       [(''fc1'', QuantLinear ''GPTQ'', PInt 4, PInt 128),
        (''act'', OtherLayer ''GELU'', PNone, PNone),
        (''fc2'', QuantLinear ''GPTQ'', PInt 4, PInt 128)]
   \<and> widths (module_graph (snd (repack_to_new_mode toy_mixed_env
        (toy_args\<lparr>pack_mode := ''GPTQ''\<rparr>) ''GEMM''
        (snd (run toy_mixed_env (toy_args\<lparr>eval := True\<rparr>) init))))) =
       [(''fc1'', QuantLinear ''GEMM'', PInt 4, PInt 128),
        (''act'', OtherLayer ''GELU'', PNone, PNone),
        (''fc2'', QuantLinear ''GEMM'', PInt 4, PInt 128)]
   \<and> repack_codes 8 (1 / 2) 8 [200, 7] = [200, 7]
   \<and> repack_codes (nat (wbits toy_args)) (1 / 2) 8 [200, 7] = [15, 7]"
  by (simp add: run_defs toy_mixed_env_def toy_mixed_quantizers_def widths_def
      repack_codes_def requantize_exact requantize_clamped)

subsection \<open>\<^verbatim>\<open>pack_model\<close> and the dictionary of the quantizer\<close>

lemma pack_loop_step:
  assumes "pack_loop att (name # names) s = (Inr u, s')"
  shows "\<exists>q sc z g w gs lin.
           map_of (quantizers_dict s) name = Some (PTuple [q, sc, z, g, w, gs])
         \<and> map_of att name = Some lin
         \<and> pack_loop att names
             (s\<lparr>quantizers_dict := AList.update name q (quantizers_dict s),
                trace := trace s @ [(stage s, PackGpu name)],
                module_graph := pack_gpu (module_graph s) name lin sc z g\<rparr>) = (Inr u, s')"
proof -
  from assms obtain v where v: "map_of (quantizers_dict s) name = Some v"
    by (auto simp: comp_defs lookup_def split: option.splits)
  from assms v obtain q sc z g where u: "unpack6 v = Inr (q, sc, z, g)"
    by (cases "unpack6 v") (auto simp: comp_defs lookup_def)
  then obtain w gs where t: "v = PTuple [q, sc, z, g, w, gs]"
    using unpack6_Inr by blast
  from assms v u obtain lin where l: "map_of att name = Some lin"
    by (auto simp: comp_defs lookup_def NEED_CHECK_PACK_def split: option.splits)
  from assms v u l have "pack_loop att names
             (s\<lparr>quantizers_dict := AList.update name q (quantizers_dict s),
                trace := trace s @ [(stage s, PackGpu name)],
                module_graph := pack_gpu (module_graph s) name lin sc z g\<rparr>) = (Inr u, s')"
    by (simp add: comp_defs lookup_def NEED_CHECK_PACK_def)
  with v t l show ?thesis by blast
qed

lemma pack_loop_other:
  "pack_loop att ns s = (Inr u, s') \<Longrightarrow> n \<notin> set ns \<Longrightarrow>
   map_of (quantizers_dict s') n = map_of (quantizers_dict s) n"
proof (induction ns arbitrary: s)
  case Nil
  then show ?case by (simp add: ret_def)
next
  case (Cons name names)
  from pack_loop_step[OF Cons.prems(1)] obtain q sc z g lin where
    step: "pack_loop att names
             (s\<lparr>quantizers_dict := AList.update name q (quantizers_dict s),
                trace := trace s @ [(stage s, PackGpu name)],
                module_graph := pack_gpu (module_graph s) name lin sc z g\<rparr>) = (Inr u, s')"
    by blast
  from Cons.prems(2) have "n \<noteq> name" "n \<notin> set names" by auto
  with Cons.IH[OF step] show ?case by (simp add: update_conv')
qed

lemma pack_loop_first:
  "pack_loop att ns s = (Inr u, s') \<Longrightarrow> distinct ns \<Longrightarrow> n \<in> set ns \<Longrightarrow>
   \<exists>q sc z g w gs. map_of (quantizers_dict s) n = Some (PTuple [q, sc, z, g, w, gs])
      \<and> map_of (quantizers_dict s') n = Some q"
proof (induction ns arbitrary: s)
  case Nil
  then show ?case by simp
next
  case (Cons name names)
  from pack_loop_step[OF Cons.prems(1)] obtain q sc z g w gs lin where
    entry: "map_of (quantizers_dict s) name = Some (PTuple [q, sc, z, g, w, gs])"
    and step: "pack_loop att names
             (s\<lparr>quantizers_dict := AList.update name q (quantizers_dict s),
                trace := trace s @ [(stage s, PackGpu name)],
                module_graph := pack_gpu (module_graph s) name lin sc z g\<rparr>) = (Inr u, s')"
    by blast
  from Cons.prems(2) have d: "name \<notin> set names" "distinct names" by auto
  show ?case
  proof (cases "n = name")
    case True
    from pack_loop_other[OF step d(1)] have "map_of (quantizers_dict s') name = Some q"
      by (simp add: update_conv')
    with entry True show ?thesis by blast
  next
    case False
    with Cons.prems(3) have "n \<in> set names" by simp
    from Cons.IH[OF step d(2) this] False show ?thesis by (simp add: update_conv')
  qed
qed

lemma pack_gpu_types:
  "map (\<lambda>(n, l). (n, ltype l)) (pack_gpu g name lin sc z gi) = map (\<lambda>(n, l). (n, ltype l)) g"
  by (auto simp: pack_gpu_def)

lemma pack_loop_types:
  "pack_loop att ns s = (Inr u, s') \<Longrightarrow>
   map (\<lambda>(n, l). (n, ltype l)) (module_graph s') = map (\<lambda>(n, l). (n, ltype l)) (module_graph s)"
proof (induction ns arbitrary: s)
  case Nil
  then show ?case by (auto simp: ret_def)
next
  case (Cons name names)
  from pack_loop_step[OF Cons.prems(1)] obtain q sc z g lin where
    step: "pack_loop att names
             (s\<lparr>quantizers_dict := AList.update name q (quantizers_dict s),
                trace := trace s @ [(stage s, PackGpu name)],
                module_graph := pack_gpu (module_graph s) name lin sc z g\<rparr>) = (Inr u, s')"
    by blast
  from Cons.IH[OF step] show ?case by (simp add: pack_gpu_types)
qed

lemma make_mixbits_names:
  "map fst (make_mixbits_quant_linear g qs qi t) = map fst g"
  by (auto simp: make_mixbits_quant_linear_def split: option.splits info.splits)

text \<open>
  Claim C10. \<^verbatim>\<open>pack_model\<close> updates the dictionary \<^verbatim>\<open>quantizers\<close> in place. When it returns
  normally on a graph with distinct layer names, then for every layer of the packed class
  in the returned graph, the entry of the dictionary under the layer's name held a tuple of
  six items before the call and holds only the first item of that tuple after it: scale,
  zero point, group index, bit width and group size are gone from the caller's dictionary.
\<close>

theorem pack_model_overwrites_quantizers:
  assumes run: "pack_model env a s = (Inr r, s')"
    and names: "distinct (map fst (module_graph s))"
    and layer: "(name, l) \<in> set (module_graph s')"
    and packed: "ltype l = select_quant_linear env (pack_mode a) (wbits a)"
  shows "\<exists>q scale zero g_idx w gs.
           map_of (quantizers_dict s) name = Some (PTuple [q, scale, zero, g_idx, w, gs])
         \<and> map_of (quantizers_dict s') name = Some q"
proof -
  let ?t = "select_quant_linear env (pack_mode a) (wbits a)"
  from run obtain att where att:
    "select_layers (find_layers (module_graph s) (quant_layers @ [ScaledLinear]))
       (map fst (quantizers_dict s)) [] = Inr att"
    by (cases "select_layers (find_layers (module_graph s) (quant_layers @ [ScaledLinear]))
       (map fst (quantizers_dict s)) []") (auto simp: pack_model_def comp_defs Let_def)
  from run att obtain qi0 where qi0: "build_quant_info (quantizers_dict s) [] = Inr qi0"
    by (cases "build_quant_info (quantizers_dict s) []")
       (auto simp: pack_model_def comp_defs Let_def)
  define qi where "qi = AList.update ''method'' (Method (method_name a)) qi0"
  define g1 where "g1 = make_mixbits_quant_linear (module_graph s) (quantizers_dict s) qi ?t"
  define s1 where "s1 = s\<lparr>module_graph := g1,
      trace := trace s @ [(stage s, FindLayers (quant_layers @ [ScaledLinear])),
        (stage s, SelectQuantLinear (pack_mode a) (wbits a)),
        (stage s, MakeMixbitsQuantLinear ?t), (stage s, FindLayers [?t])]\<rparr>"
  from run att qi0 have loop: "pack_loop att (map fst (find_layers g1 [?t])) s1 = (Inr (), s')"
    by (auto simp: pack_model_def comp_defs Let_def qi_def g1_def s1_def
        split: sum.splits prod.splits)
  have d: "distinct (map fst (find_layers g1 [?t]))"
    unfolding find_layers_def
    by (rule distinct_map_filter) (simp add: g1_def make_mixbits_names names)
  from pack_loop_types[OF loop] have "map (\<lambda>(n, l). (n, ltype l)) (module_graph s') =
      map (\<lambda>(n, l). (n, ltype l)) g1"
    by (simp add: s1_def)
  moreover from layer packed have "(name, ?t) \<in> set (map (\<lambda>(n, l). (n, ltype l)) (module_graph s'))"
    by force
  ultimately obtain l1 where "(name, l1) \<in> set g1" "ltype l1 = ?t"
    by auto
  then have "name \<in> set (map fst (find_layers g1 [?t]))"
    by (force simp: find_layers_def)
  from pack_loop_first[OF loop d this] show ?thesis
    by (simp add: s1_def)
qed

theorem pack_model_overwrites_quantizers_witness:
  "fst (pack_model toy_env toy_args toy_calibrated) =
     Inr ([(''fc1'', LayerInfo (PInt 4) (PInt 128)), (''fc2'', LayerInfo (PInt 4) (PInt 128)),
           (''method'', Method ''gptq'')],
          \<lparr>zero_point = True, q_group_size = 128, w_bit = 4, version = ''GEMM''\<rparr>)
   \<and> distinct (map fst (module_graph toy_calibrated))
   \<and> map_of (quantizers_dict toy_calibrated) ''fc1'' =
       Some (PTuple [PObj ''q1'', PObj ''s1'', PObj ''z1'', PObj ''g1'', PInt 4, PInt 128])
   \<and> map_of (quantizers_dict (snd (pack_model toy_env toy_args toy_calibrated))) ''fc1'' =
       Some (PObj ''q1'')"
proof -
  let ?r = "([(''fc1'', LayerInfo (PInt 4) (PInt 128)), (''fc2'', LayerInfo (PInt 4) (PInt 128)),
           (''method'', Method ''gptq'')],
          \<lparr>zero_point = True, q_group_size = 128, w_bit = 4, version = ''GEMM''\<rparr>)"
  let ?l = "\<lparr>ltype = QuantLinear ''GEMM'', bits = PInt 4, group_size = PInt 128,
     infeatures = PInt 8, outfeatures = PInt 4, has_bias = False,
     weight = Packed (PObj ''w1'') (PObj ''s1'') (PObj ''z1'') (PObj ''g1'')\<rparr>"
  have r: "fst (pack_model toy_env toy_args toy_calibrated) = Inr ?r"
    by code_simp
  then have run: "pack_model toy_env toy_args toy_calibrated =
      (Inr ?r, snd (pack_model toy_env toy_args toy_calibrated))"
    by (simp add: prod_eq_iff)
  have d: "distinct (map fst (module_graph toy_calibrated))"
    by (simp add: toy_calibrated_def init_def toy_graph_def)
  have l: "(''fc1'', ?l) \<in> set (module_graph (snd (pack_model toy_env toy_args toy_calibrated)))"
    by code_simp
  have t: "ltype ?l = select_quant_linear toy_env (pack_mode toy_args) (wbits toy_args)"
    by (simp add: toy_env_def toy_args_def)
  have q: "map_of (quantizers_dict toy_calibrated) ''fc1'' =
       Some (PTuple [PObj ''q1'', PObj ''s1'', PObj ''z1'', PObj ''g1'', PInt 4, PInt 128])"
    by (simp add: toy_calibrated_def init_def toy_quantizers_def)
  from pack_model_overwrites_quantizers [OF run d l t] r d q show ?thesis
    by auto
qed

text \<open>
  \<^verbatim>\<open>run\<close> hands that same dictionary to \<^verbatim>\<open>export_quant_table\<close> (lines 169 to 174): on the
  fresh path without a mixed-precision file, the table exported is the dictionary in the
  state in which \<^verbatim>\<open>pack_model\<close> left it.
\<close>

lemma stages_after_pack_extend:
  "\<exists>ev. trace (snd ((seqE (in_stage SAVE (save_block a' l))
     (seqE (in_stage EVAL (eval_block env a'))
     (seqE (in_stage EXPORT (export_block env a' idl))
     (seqE (in_stage SERVE (serve_block a'))
           (in_stage SAVE_SAFETENSORS (safetensors_block a')))))) s)) = trace s @ ev"
proof -
  have "appends (\<lambda>ev. fst ` set ev \<subseteq> UNIV)
     (seqE (in_stage SAVE (save_block a' l))
     (seqE (in_stage EVAL (eval_block env a'))
     (seqE (in_stage EXPORT (export_block env a' idl))
     (seqE (in_stage SERVE (serve_block a'))
           (in_stage SAVE_SAFETENSORS (safetensors_block a'))))))"
    unfolding save_block_def eval_block_def export_block_def serve_block_def
      safetensors_block_def
    by (intro tags_seqE tags_in_stage_when tags_in_stage
        steady_save_body steady_eval_model steady_export_body steady_emit disjI1 UNIV_I)
  then show ?thesis unfolding appends_def by blast
qed

lemma run_exports_packed_quantizers:
  assumes gpu: "gpu_dist_of env a = Inr d"
    and fresh: "as_posix (load a) = []" "model a \<noteq> []" "wbits a < 16" "\<not> nearest a"
    and conf: "\<not> conf_truthy (mix_qlayer_conf a)"
    and qd: "quant_directory a = Some dir"
    and pm: "pack_model env ((default_tokenizer (normalise_load a))\<lparr>mix_qlayer_conf := ConfDict []\<rparr>)
       \<lparr>self_tokenizer = Some (model a),
        module_graph = fst (quantize env (from_pretrained env (model a))),
        quantizers_dict = snd (quantize env (from_pretrained env (model a))),
        stage = PACK,
        trace = [(LOAD, TokenizerFromPretrained (model a)), (LOAD, FromPretrained (model a)),
          (LOAD, ModelEval), (SAMPLE, GetSampleDatas), (CALIBRATE, Quantize)]\<rparr> = (Inr r, s2)"
  shows "(QUANT_TABLE, ExportQuantTable (quantizers_dict s2) dir)
           \<in> set (trace (snd (run env a init)))"
proof -
  let ?a = "(default_tokenizer (normalise_load a))\<lparr>mix_qlayer_conf := ConfDict []\<rparr>"
  let ?s3 = "s2\<lparr>stage := QUANT_TABLE,
     trace := trace s2 @ [(stage s2, LogInfo ''Finished quantization and packing weight, time cost:''),
       (QUANT_TABLE, ExportQuantTable (quantizers_dict s2) dir)]\<rparr>"
  let ?rest = "seqE (in_stage SAVE (save_block ?a (Some r)))
     (seqE (in_stage EVAL (eval_block env ?a))
     (seqE (in_stage EXPORT (export_block env ?a (get_sample_datas env)))
     (seqE (in_stage SERVE (serve_block ?a))
           (in_stage SAVE_SAFETENSORS (safetensors_block ?a)))))"
  have "run env a init = ?rest ?s3"
    using gpu fresh conf qd pm
    by (simp add: run_def run_stages_def Let_def load_block_def get_torch_model_def
        sample_block_def calibrate_pack_block_def calibrate_block_def pack_block_def
        quant_by_sequential_def quant_table_block_def comp_defs init_def)
  moreover from stages_after_pack_extend obtain ev where
    "trace (snd (?rest ?s3)) = trace ?s3 @ ev" by blast
  ultimately show ?thesis by simp
qed

end
